theory Spec2Isabelle
  imports Complex_Main "HOL-Library.AList" "HOL-Library.Char_ord" "HOL-Library.List_Lexorder"
    "HOL-Library.Multiset"
begin

section \<open>Python values\<close>

text \<open>
  The handlers and the AI service pass around JSON-like Python values
  (\<^verbatim>\<open>Dict[str, Any]\<close>). A dictionary is an association list in insertion order with
  unique keys; \<^verbatim>\<open>float\<close> is idealised as \<open>real\<close> (rounding is not modelled) and a
  string is a list of characters.
\<close>

datatype pyval =
    PNone
  | PBool bool
  | PInt int
  | PFloat real
  | PStr string
  | PList "pyval list"
  | PDict "(string \<times> pyval) list"

section \<open>backend/app/models and backend/app/schemas\<close>

text \<open>\<^verbatim>\<open>models/utilisateur.py\<close>: the role enumeration and its \<^verbatim>\<open>.value\<close>.\<close>

datatype UserRole = MEDECIN | ADMINISTRATIF | ADMIN | AUDIT

fun role_value :: "UserRole \<Rightarrow> string" where
  "role_value MEDECIN = ''medecin''"
| "role_value ADMINISTRATIF = ''administratif''"
| "role_value ADMIN = ''admin''"
| "role_value AUDIT = ''audit''"

record utilisateur =
  user_id :: int
  role :: UserRole

text \<open>
  \<^verbatim>\<open>models/acte.py\<close>: the columns the validation handlers read or that the
  status-changing services write. \<^verbatim>\<open>score_confiance\<close> is a nullable Float.
\<close>

record acte =
  createur_id :: int
  statut :: string
  score_confiance :: "real option"
  code_ccam_suggere :: "string option"
  code_ccam_final :: "string option"
  validateur_id :: "int option"
  transaction_hash :: "string option"

text \<open>\<^verbatim>\<open>schemas/acte.py\<close>, class \<^verbatim>\<open>ActeValidation\<close>.\<close>

record ActeValidation =
  validation_code_ccam_final :: string
  validation_justification :: "string option"
  force_validation :: bool

text \<open>
  The request body of \<^verbatim>\<open>create_override\<close>: the four attributes of
  \<^verbatim>\<open>OverrideCreate\<close> that the handler reads.
\<close>

record OverrideCreate =
  code_ccam_original :: string
  code_ccam_override :: string
  justification :: string
  type_override :: string

text \<open>\<^verbatim>\<open>models/override.py\<close>.\<close>

record override =
  override_id :: int
  override_acte_id :: int
  override_utilisateur_id :: int
  override_code_ccam_original :: string
  override_code_ccam_override :: string
  override_justification :: string
  override_type_override :: string
  override_is_approved :: bool
  override_transaction_hash :: "string option"

text \<open>\<^verbatim>\<open>models/audit_entry.py\<close>.\<close>

record AuditEntry =
  audit_acte_id :: "int option"
  audit_utilisateur_id :: "int option"
  audit_action :: string
  audit_entity_type :: string
  audit_new_values :: "(string \<times> pyval) list"

section \<open>backend/app/api/validation.py\<close>

text \<open>
  \<^verbatim>\<open>HTTPException(status_code, detail)\<close>. The three handlers raise nothing else.
\<close>

datatype http_exception = HTTPException (status_code: nat) (detail: string)

text \<open>
  \<^verbatim>\<open>background_tasks.add_task(acte_service.log_audit_action, acte_id=..., user_id=...,
  action=..., entity_type=..., new_values=...)\<close>: the handlers only ever schedule
  \<^verbatim>\<open>log_audit_action\<close>. A scheduled task runs after the response has been sent.
\<close>

datatype background_task =
  LogAuditAction (task_acte_id: int) (task_user_id: int) (task_action: string)
    (task_entity_type: string) (task_new_values: "(string \<times> pyval) list")

text \<open>
  The services the handlers call (\<^verbatim>\<open>ActeService\<close>, \<^verbatim>\<open>OverrideService\<close>,
  \<^verbatim>\<open>BlockchainService\<close>) are taken as parameters over a database state \<open>'db\<close>.
  A call that raises is \<open>Inl msg\<close>, where \<open>msg\<close> is \<^verbatim>\<open>str(e)\<close>, and leaves the
  database as it was before that call; a call that returns gives the new database.
\<close>

record 'db services =
  get_acte_by_id :: "'db \<Rightarrow> int \<Rightarrow> acte option"
  service_validate_acte :: "'db \<Rightarrow> int \<Rightarrow> string \<Rightarrow> int \<Rightarrow> string option \<Rightarrow> string + 'db"
  service_reject_acte :: "'db \<Rightarrow> int \<Rightarrow> int \<Rightarrow> string \<Rightarrow> string + 'db"
  update_acte_blockchain_info :: "'db \<Rightarrow> int \<Rightarrow> string \<Rightarrow> string + 'db"
  update_acte_suggestion :: "'db \<Rightarrow> int \<Rightarrow> string \<Rightarrow> string + 'db"
  service_create_override ::
    "'db \<Rightarrow> int \<Rightarrow> int \<Rightarrow> string \<Rightarrow> string \<Rightarrow> string \<Rightarrow> string \<Rightarrow> string + override \<times> 'db"
  update_override_blockchain_info :: "'db \<Rightarrow> int \<Rightarrow> string \<Rightarrow> string + 'db"
  log_audit_action ::
    "'db \<Rightarrow> int \<Rightarrow> int \<Rightarrow> string \<Rightarrow> string \<Rightarrow> (string \<times> pyval) list \<Rightarrow> string + 'db"
  record_validation :: "int \<Rightarrow> string \<Rightarrow> string option \<Rightarrow> int \<Rightarrow> string \<Rightarrow> string + string"
  record_rejection :: "int \<Rightarrow> int \<Rightarrow> string \<Rightarrow> string + string"
  record_override :: "int \<Rightarrow> int \<Rightarrow> string \<Rightarrow> string \<Rightarrow> int \<Rightarrow> string \<Rightarrow> string + string"

text \<open>The response dictionary of \<^verbatim>\<open>validate_acte\<close> and \<^verbatim>\<open>reject_acte\<close>.\<close>

record status_response =
  response_message :: string
  response_acte_id :: int
  response_transaction_hash :: string
  response_statut :: string

text \<open>
  The permission test shared by the three handlers:
  \<^verbatim>\<open>acte.createur_id != current_user.id and current_user.role.value not in ["admin", "medecin"]\<close>.
\<close>

definition access_denied :: "acte \<Rightarrow> utilisateur \<Rightarrow> bool" where
  "access_denied a current_user \<longleftrightarrow>
     createur_id a \<noteq> user_id current_user \<and>
     role_value (role current_user) \<notin> set [''admin'', ''medecin'']"

text \<open>
  \<^verbatim>\<open>not validation_data.force_validation and acte.score_confiance and acte.score_confiance < 50\<close>:
  \<^verbatim>\<open>None\<close> and \<open>0.0\<close> are falsy.
\<close>

definition low_confidence_guard :: "ActeValidation \<Rightarrow> acte \<Rightarrow> bool" where
  "low_confidence_guard validation_data a \<longleftrightarrow>
     \<not> force_validation validation_data \<and>
     (case score_confiance a of None \<Rightarrow> False | Some s \<Rightarrow> s \<noteq> 0 \<and> s < 50)"

definition not_found :: http_exception where
  "not_found = HTTPException 404 (''Acte non trouv'' @ [CHR 0xE9])"

definition forbidden :: http_exception where
  "forbidden = HTTPException 403 (''Acc'' @ [CHR 0xE8] @ ''s non autoris'' @ [CHR 0xE9])"

definition already_validated :: http_exception where
  "already_validated =
     HTTPException 400 (''Acte d'' @ [CHR 0xE9] @ ''j'' @ [CHR 0xE0] @ '' valid'' @ [CHR 0xE9])"

definition low_confidence :: http_exception where
  "low_confidence =
     HTTPException 400
       (''Score de confiance trop faible. Utilisez force_validation=true pour forcer.'')"

definition validation_failed :: "string \<Rightarrow> http_exception" where
  "validation_failed e = HTTPException 500 (''Erreur lors de la validation: '' @ e)"

text \<open>\<^verbatim>\<open>validation_data.justification or "Validation standard"\<close>.\<close>

definition justification_or_standard :: "string option \<Rightarrow> string" where
  "justification_or_standard j =
     (case j of None \<Rightarrow> ''Validation standard''
      | Some s \<Rightarrow> if s = [] then ''Validation standard'' else s)"

text \<open>The \<^verbatim>\<open>try\<close> block of \<^verbatim>\<open>validate_acte\<close>, with its \<^verbatim>\<open>except Exception\<close>.\<close>

definition validate_acte_try ::
  "'db services \<Rightarrow> 'db \<Rightarrow> background_task list \<Rightarrow> int \<Rightarrow> acte \<Rightarrow> ActeValidation \<Rightarrow> utilisateur \<Rightarrow>
     (http_exception + status_response) \<times> 'db \<times> background_task list" where
  "validate_acte_try svc db background_tasks acte_id a validation_data current_user =
     (case service_validate_acte svc db acte_id
             (validation_code_ccam_final validation_data) (user_id current_user)
             (validation_justification validation_data) of
        Inl e \<Rightarrow> (Inl (validation_failed e), db, background_tasks)
      | Inr db1 \<Rightarrow>
          (case record_validation svc acte_id
                  (validation_code_ccam_final validation_data) (code_ccam_suggere a)
                  (user_id current_user)
                  (justification_or_standard (validation_justification validation_data)) of
             Inl e \<Rightarrow> (Inl (validation_failed e), db1, background_tasks)
           | Inr tx \<Rightarrow>
               (case update_acte_blockchain_info svc db1 acte_id tx of
                  Inl e \<Rightarrow> (Inl (validation_failed e), db1, background_tasks)
                | Inr db2 \<Rightarrow>
                    (Inr \<lparr>response_message =
                            ''Acte valid'' @ [CHR 0xE9] @ '' avec succ'' @ [CHR 0xE8] @ ''s'',
                          response_acte_id = acte_id,
                          response_transaction_hash = tx,
                          response_statut = ''valide''\<rparr>,
                     db2,
                     background_tasks @
                       [LogAuditAction acte_id (user_id current_user) ''validate_acte'' ''acte''
                          [(''code_ccam_final'', PStr (validation_code_ccam_final validation_data)),
                           (''statut'', PStr ''valide''),
                           (''transaction_hash'', PStr tx)]]))))"

definition validate_acte ::
  "'db services \<Rightarrow> 'db \<Rightarrow> background_task list \<Rightarrow> int \<Rightarrow> ActeValidation \<Rightarrow> utilisateur \<Rightarrow>
     (http_exception + status_response) \<times> 'db \<times> background_task list" where
  "validate_acte svc db background_tasks acte_id validation_data current_user =
     (case get_acte_by_id svc db acte_id of
        None \<Rightarrow> (Inl not_found, db, background_tasks)
      | Some a \<Rightarrow>
          if access_denied a current_user then (Inl forbidden, db, background_tasks)
          else if statut a \<in> set [''valide'', ''rejete'']
            then (Inl already_validated, db, background_tasks)
          else if low_confidence_guard validation_data a
            then (Inl low_confidence, db, background_tasks)
          else validate_acte_try svc db background_tasks acte_id a validation_data current_user)"

text \<open>\<^verbatim>\<open>reject_acte(acte_id, reason, ...)\<close>.\<close>

definition already_processed :: http_exception where
  "already_processed =
     HTTPException 400 (''Acte d'' @ [CHR 0xE9] @ ''j'' @ [CHR 0xE0] @ '' trait'' @ [CHR 0xE9])"

definition rejection_failed :: "string \<Rightarrow> http_exception" where
  "rejection_failed e = HTTPException 500 (''Erreur lors du rejet: '' @ e)"

definition reject_acte_try ::
  "'db services \<Rightarrow> 'db \<Rightarrow> background_task list \<Rightarrow> int \<Rightarrow> string \<Rightarrow> utilisateur \<Rightarrow>
     (http_exception + status_response) \<times> 'db \<times> background_task list" where
  "reject_acte_try svc db background_tasks acte_id reason current_user =
     (case service_reject_acte svc db acte_id (user_id current_user) reason of
        Inl e \<Rightarrow> (Inl (rejection_failed e), db, background_tasks)
      | Inr db1 \<Rightarrow>
          (case record_rejection svc acte_id (user_id current_user) reason of
             Inl e \<Rightarrow> (Inl (rejection_failed e), db1, background_tasks)
           | Inr tx \<Rightarrow>
               (case update_acte_blockchain_info svc db1 acte_id tx of
                  Inl e \<Rightarrow> (Inl (rejection_failed e), db1, background_tasks)
                | Inr db2 \<Rightarrow>
                    (Inr \<lparr>response_message =
                            ''Acte rejet'' @ [CHR 0xE9] @ '' avec succ'' @ [CHR 0xE8] @ ''s'',
                          response_acte_id = acte_id,
                          response_transaction_hash = tx,
                          response_statut = ''rejete''\<rparr>,
                     db2,
                     background_tasks @
                       [LogAuditAction acte_id (user_id current_user) ''reject_acte'' ''acte''
                          [(''statut'', PStr ''rejete''),
                           (''reason'', PStr reason),
                           (''transaction_hash'', PStr tx)]]))))"

definition reject_acte ::
  "'db services \<Rightarrow> 'db \<Rightarrow> background_task list \<Rightarrow> int \<Rightarrow> string \<Rightarrow> utilisateur \<Rightarrow>
     (http_exception + status_response) \<times> 'db \<times> background_task list" where
  "reject_acte svc db background_tasks acte_id reason current_user =
     (case get_acte_by_id svc db acte_id of
        None \<Rightarrow> (Inl not_found, db, background_tasks)
      | Some a \<Rightarrow>
          if access_denied a current_user then (Inl forbidden, db, background_tasks)
          else if statut a \<in> set [''valide'', ''rejete'']
            then (Inl already_processed, db, background_tasks)
          else reject_acte_try svc db background_tasks acte_id reason current_user)"

text \<open>
  \<^verbatim>\<open>create_override(acte_id, override_data, ...)\<close>. The handler answers with the
  \<^verbatim>\<open>override\<close> object that \<^verbatim>\<open>override_service.create_override\<close> returned.
\<close>

definition override_on_validated :: http_exception where
  "override_on_validated =
     HTTPException 400
       (''Impossible de cr'' @ [CHR 0xE9] @ ''er un override sur un acte d'' @ [CHR 0xE9] @ ''j'' @
        [CHR 0xE0] @ '' valid'' @ [CHR 0xE9])"

definition override_failed :: "string \<Rightarrow> http_exception" where
  "override_failed e =
     HTTPException 500
       (''Erreur lors de la cr'' @ [CHR 0xE9] @ ''ation de l'' @ [CHR 0x27] @ ''override: '' @ e)"

definition create_override_try ::
  "'db services \<Rightarrow> 'db \<Rightarrow> background_task list \<Rightarrow> int \<Rightarrow> OverrideCreate \<Rightarrow> utilisateur \<Rightarrow>
     (http_exception + override) \<times> 'db \<times> background_task list" where
  "create_override_try svc db background_tasks acte_id override_data current_user =
     (case service_create_override svc db acte_id (user_id current_user)
             (code_ccam_original override_data) (code_ccam_override override_data)
             (justification override_data) (type_override override_data) of
        Inl e \<Rightarrow> (Inl (override_failed e), db, background_tasks)
      | Inr (ov, db1) \<Rightarrow>
          (case record_override svc (override_id ov) acte_id
                  (code_ccam_original override_data) (code_ccam_override override_data)
                  (user_id current_user) (justification override_data) of
             Inl e \<Rightarrow> (Inl (override_failed e), db1, background_tasks)
           | Inr tx \<Rightarrow>
               (case update_override_blockchain_info svc db1 (override_id ov) tx of
                  Inl e \<Rightarrow> (Inl (override_failed e), db1, background_tasks)
                | Inr db2 \<Rightarrow>
                    (case update_acte_suggestion svc db2 acte_id
                            (code_ccam_override override_data) of
                       Inl e \<Rightarrow> (Inl (override_failed e), db2, background_tasks)
                     | Inr db3 \<Rightarrow>
                         (Inr ov,
                          db3,
                          background_tasks @
                            [LogAuditAction acte_id (user_id current_user) ''create_override''
                               ''override''
                               [(''override_id'', PInt (override_id ov)),
                                (''code_ccam_override'', PStr (code_ccam_override override_data)),
                                (''transaction_hash'', PStr tx)]])))))"

definition create_override ::
  "'db services \<Rightarrow> 'db \<Rightarrow> background_task list \<Rightarrow> int \<Rightarrow> OverrideCreate \<Rightarrow> utilisateur \<Rightarrow>
     (http_exception + override) \<times> 'db \<times> background_task list" where
  "create_override svc db background_tasks acte_id override_data current_user =
     (case get_acte_by_id svc db acte_id of
        None \<Rightarrow> (Inl not_found, db, background_tasks)
      | Some a \<Rightarrow>
          if access_denied a current_user then (Inl forbidden, db, background_tasks)
          else if statut a \<in> set [''valide'', ''rejete'']
            then (Inl override_on_validated, db, background_tasks)
          else create_override_try svc db background_tasks acte_id override_data current_user)"

text \<open>Running one scheduled task, after the response.\<close>

fun run_background_task :: "'db services \<Rightarrow> 'db \<Rightarrow> background_task \<Rightarrow> string + 'db" where
  "run_background_task svc db (LogAuditAction acte_id uid action entity_type new_values) =
     log_audit_action svc db acte_id uid action entity_type new_values"

section \<open>An in-memory instance of the services\<close>

text \<open>
  \<^verbatim>\<open>services/acte_service.py\<close>, \<^verbatim>\<open>services/override_service.py\<close> and
  \<^verbatim>\<open>services/blockchain_service.py\<close> are not among the sources. The instance below is
  used to run the handlers on concrete requests.
\<close>

record mem_db =
  actes :: "(int \<times> acte) list"
  overrides :: "override list"
  audit_entries :: "AuditEntry list"

text \<open>
  Modelled from the spec: \<^verbatim>\<open>ActeService.get_acte_by_id\<close> (missing); the ActRecord table
  is keyed by the local id.
\<close>

definition mem_get_acte_by_id :: "mem_db \<Rightarrow> int \<Rightarrow> acte option" where
  "mem_get_acte_by_id db acte_id = map_of (actes db) acte_id"

text \<open>
  Modelled from the spec: the write of one ActRecord shared by the missing
  \<^verbatim>\<open>ActeService\<close> methods; an unknown id raises.
\<close>

definition mem_update_acte :: "mem_db \<Rightarrow> int \<Rightarrow> (acte \<Rightarrow> acte) \<Rightarrow> string + mem_db" where
  "mem_update_acte db acte_id f =
     (case map_of (actes db) acte_id of
        None \<Rightarrow> Inl ''acte introuvable''
      | Some a \<Rightarrow> Inr (db\<lparr>actes := AList.update acte_id (f a) (actes db)\<rparr>))"

text \<open>
  Modelled from the spec: \<^verbatim>\<open>ActeService.validate_acte\<close> (missing); "on success sets
  status=validated, finalCode".
\<close>

definition mem_validate_acte ::
  "mem_db \<Rightarrow> int \<Rightarrow> string \<Rightarrow> int \<Rightarrow> string option \<Rightarrow> string + mem_db" where
  "mem_validate_acte db acte_id code validateur j =
     mem_update_acte db acte_id
       (\<lambda>a. a\<lparr>statut := ''valide'', code_ccam_final := Some code, validateur_id := Some validateur\<rparr>)"

text \<open>
  Modelled from the spec: \<^verbatim>\<open>ActeService.reject_acte\<close> (missing); "on success sets
  status=rejected".
\<close>

definition mem_reject_acte :: "mem_db \<Rightarrow> int \<Rightarrow> int \<Rightarrow> string \<Rightarrow> string + mem_db" where
  "mem_reject_acte db acte_id validateur reason =
     mem_update_acte db acte_id (\<lambda>a. a\<lparr>statut := ''rejete'', validateur_id := Some validateur\<rparr>)"

text \<open>
  Modelled from the spec: \<^verbatim>\<open>ActeService.update_acte_blockchain_info\<close> (missing); fills
  in the act's ledger anchor reference.
\<close>

definition mem_update_acte_blockchain_info :: "mem_db \<Rightarrow> int \<Rightarrow> string \<Rightarrow> string + mem_db" where
  "mem_update_acte_blockchain_info db acte_id tx =
     mem_update_acte db acte_id (\<lambda>a. a\<lparr>transaction_hash := Some tx\<rparr>)"

text \<open>
  Modelled from the spec: \<^verbatim>\<open>ActeService.update_acte_suggestion\<close> (missing); "updates the
  act's suggested code to the override code (status stays pending)".
\<close>

definition mem_update_acte_suggestion :: "mem_db \<Rightarrow> int \<Rightarrow> string \<Rightarrow> string + mem_db" where
  "mem_update_acte_suggestion db acte_id code =
     mem_update_acte db acte_id (\<lambda>a. a\<lparr>code_ccam_suggere := Some code\<rparr>)"

text \<open>
  Modelled from the spec: \<^verbatim>\<open>OverrideService.create_override\<close> (missing); "fails with
  ValidationError if justification is empty. On success: creates an OverrideRecord". The
  new record gets the next local id.
\<close>

definition mem_create_override ::
  "mem_db \<Rightarrow> int \<Rightarrow> int \<Rightarrow> string \<Rightarrow> string \<Rightarrow> string \<Rightarrow> string \<Rightarrow> string + override \<times> mem_db" where
  "mem_create_override db acte_id uid original overridden j kind =
     (if j = [] then Inl ''ValidationError: justification is empty''
      else
        (let ov = \<lparr>override_id = int (length (overrides db)) + 1,
                   override_acte_id = acte_id,
                   override_utilisateur_id = uid,
                   override_code_ccam_original = original,
                   override_code_ccam_override = overridden,
                   override_justification = j,
                   override_type_override = kind,
                   override_is_approved = False,
                   override_transaction_hash = None\<rparr>
         in Inr (ov, db\<lparr>overrides := overrides db @ [ov]\<rparr>)))"

text \<open>
  Modelled from the spec: \<^verbatim>\<open>OverrideService.update_override_blockchain_info\<close> (missing);
  fills in the override's ledger anchor reference.
\<close>

definition mem_update_override_blockchain_info ::
  "mem_db \<Rightarrow> int \<Rightarrow> string \<Rightarrow> string + mem_db" where
  "mem_update_override_blockchain_info db oid tx =
     Inr (db\<lparr>overrides :=
            map (\<lambda>ov. if override_id ov = oid then ov\<lparr>override_transaction_hash := Some tx\<rparr> else ov)
              (overrides db)\<rparr>)"

text \<open>
  Modelled from the spec: \<^verbatim>\<open>ActeService.log_audit_action\<close> (missing); appends one
  AuditEntry to the append-only log.
\<close>

definition mem_log_audit_action ::
  "mem_db \<Rightarrow> int \<Rightarrow> int \<Rightarrow> string \<Rightarrow> string \<Rightarrow> (string \<times> pyval) list \<Rightarrow> string + mem_db" where
  "mem_log_audit_action db acte_id uid action entity_type new_values =
     Inr (db\<lparr>audit_entries := audit_entries db @
            [\<lparr>audit_acte_id = Some acte_id,
              audit_utilisateur_id = Some uid,
              audit_action = action,
              audit_entity_type = entity_type,
              audit_new_values = new_values\<rparr>]\<rparr>)"

text \<open>
  Modelled from the spec: the three \<^verbatim>\<open>BlockchainService.record_*\<close> calls (missing) are
  the LedgerClient's \<^verbatim>\<open>submit(payload) \<rightarrow> transactionRef\<close>; \<open>ledger\<close> is the outcome of
  that call, a transaction reference or the raised error.
\<close>

definition mem_services :: "string + string \<Rightarrow> mem_db services" where
  "mem_services ledger =
     \<lparr>get_acte_by_id = mem_get_acte_by_id,
      service_validate_acte = mem_validate_acte,
      service_reject_acte = mem_reject_acte,
      update_acte_blockchain_info = mem_update_acte_blockchain_info,
      update_acte_suggestion = mem_update_acte_suggestion,
      service_create_override = mem_create_override,
      update_override_blockchain_info = mem_update_override_blockchain_info,
      log_audit_action = mem_log_audit_action,
      record_validation = (\<lambda>acte_id code version auteur j. ledger),
      record_rejection = (\<lambda>acte_id auteur reason. ledger),
      record_override = (\<lambda>oid acte_id original overridden auteur j. ledger)\<rparr>"

text \<open>
  A pending act 1 created by user 7, a physician as the caller, and the requests used
  below.
\<close>

definition pending_acte :: "real option \<Rightarrow> acte" where
  "pending_acte score =
     \<lparr>createur_id = 7, statut = ''en_attente'', score_confiance = score,
      code_ccam_suggere = Some ''HHFA001'', code_ccam_final = None, validateur_id = None,
      transaction_hash = None\<rparr>"

definition db_with :: "acte \<Rightarrow> mem_db" where
  "db_with a = \<lparr>actes = [(1, a)], overrides = [], audit_entries = []\<rparr>"

definition medecin :: utilisateur where
  "medecin = \<lparr>user_id = 7, role = MEDECIN\<rparr>"

definition validation_request :: "bool \<Rightarrow> ActeValidation" where
  "validation_request force =
     \<lparr>validation_code_ccam_final = ''HHFA001'', validation_justification = None,
      force_validation = force\<rparr>"

definition override_request :: "string \<Rightarrow> OverrideCreate" where
  "override_request j =
     \<lparr>code_ccam_original = ''HHFA001'', code_ccam_override = ''HHFA002'', justification = j,
      type_override = ''correction''\<rparr>"

definition validated_acte :: acte where
  "validated_acte = (pending_acte (Some 90))\<lparr>statut := ''valide''\<rparr>"

section \<open>Python operations used by the AI service\<close>

text \<open>
  The exceptions the modelled code can raise. \<open>OtherError\<close> stands for what a collaborator
  raises (the completion provider, the rule engine, the response model's validation).
\<close>

datatype py_exception =
    KeyError string
  | TypeError
  | AttributeError
  | ValueError string
  | JSONDecodeError
  | OtherError string

text \<open>Sequencing of calls that may raise: the first exception ends the sequence.\<close>

fun and_then :: "'e + 'a \<Rightarrow> ('a \<Rightarrow> 'e + 'b) \<Rightarrow> 'e + 'b" where
  "and_then (Inl e) f = Inl e"
| "and_then (Inr x) f = f x"

text \<open>Truthiness, as \<^verbatim>\<open>if x:\<close> tests it.\<close>

fun py_truthy :: "pyval \<Rightarrow> bool" where
  "py_truthy PNone = False"
| "py_truthy (PBool b) = b"
| "py_truthy (PInt i) = (i \<noteq> 0)"
| "py_truthy (PFloat r) = (r \<noteq> 0)"
| "py_truthy (PStr s) = (s \<noteq> [])"
| "py_truthy (PList xs) = (xs \<noteq> [])"
| "py_truthy (PDict d) = (d \<noteq> [])"

text \<open>\<^verbatim>\<open>d.get(k, default)\<close> on a dictionary.\<close>

definition dict_get :: "(string \<times> pyval) list \<Rightarrow> string \<Rightarrow> pyval \<Rightarrow> pyval" where
  "dict_get d k dflt = (case map_of d k of None \<Rightarrow> dflt | Some v \<Rightarrow> v)"

text \<open>\<^verbatim>\<open>x.get(k, default)\<close> on any value: only a dictionary has the method.\<close>

fun py_get :: "pyval \<Rightarrow> string \<Rightarrow> pyval \<Rightarrow> py_exception + pyval" where
  "py_get (PDict d) k dflt = Inr (dict_get d k dflt)"
| "py_get x k dflt = Inl AttributeError"

text \<open>\<^verbatim>\<open>x[k]\<close> with a string key: a missing key raises, and so does any other value.\<close>

fun py_getitem :: "pyval \<Rightarrow> string \<Rightarrow> py_exception + pyval" where
  "py_getitem (PDict d) k = (case map_of d k of None \<Rightarrow> Inl (KeyError k) | Some v \<Rightarrow> Inr v)"
| "py_getitem x k = Inl TypeError"

text \<open>\<^verbatim>\<open>{**x, ...}\<close>: the value spread must be a mapping.\<close>

fun py_mapping :: "pyval \<Rightarrow> py_exception + (string \<times> pyval) list" where
  "py_mapping (PDict d) = Inr d"
| "py_mapping x = Inl TypeError"

text \<open>
  Iteration (\<^verbatim>\<open>for s in x\<close>, \<^verbatim>\<open>sorted(x)\<close>, \<^verbatim>\<open>sep.join(x)\<close>): a list gives its
  items, a string its characters, a dictionary its keys; nothing else is iterable.
\<close>

fun py_iter :: "pyval \<Rightarrow> py_exception + pyval list" where
  "py_iter (PList xs) = Inr xs"
| "py_iter (PStr s) = Inr (map (\<lambda>c. PStr [c]) s)"
| "py_iter (PDict d) = Inr (map (\<lambda>kv. PStr (fst kv)) d)"
| "py_iter x = Inl TypeError"

text \<open>The items as strings, when every item is a \<^verbatim>\<open>str\<close>.\<close>

fun all_strings :: "pyval list \<Rightarrow> string list option" where
  "all_strings [] = Some []"
| "all_strings (PStr s # xs) = map_option ((#) s) (all_strings xs)"
| "all_strings (x # xs) = None"

fun intercalate :: "string \<Rightarrow> string list \<Rightarrow> string" where
  "intercalate sep [] = []"
| "intercalate sep [s] = s"
| "intercalate sep (s # t # ss) = s @ sep @ intercalate sep (t # ss)"

text \<open>\<^verbatim>\<open>sep.join(x)\<close>: \<^verbatim>\<open>TypeError\<close> unless \<open>x\<close> is iterable and every item is a string.\<close>

definition py_join :: "string \<Rightarrow> pyval \<Rightarrow> py_exception + string" where
  "py_join sep x =
     and_then (py_iter x)
       (\<lambda>items. case all_strings items of
                    None \<Rightarrow> Inl TypeError
                  | Some ss \<Rightarrow> Inr (intercalate sep ss))"

text \<open>
  \<^verbatim>\<open>sep.join(sorted(x))\<close>. \<^verbatim>\<open>sorted\<close> raises \<^verbatim>\<open>TypeError\<close> on items that cannot
  be compared and \<^verbatim>\<open>join\<close> raises \<^verbatim>\<open>TypeError\<close> on an item that is not a string, so
  the expression raises \<^verbatim>\<open>TypeError\<close> unless every item is a string; strings are
  compared character by character.
\<close>

definition py_join_sorted :: "string \<Rightarrow> pyval \<Rightarrow> py_exception + string" where
  "py_join_sorted sep x =
     and_then (py_iter x)
       (\<lambda>items. case all_strings items of
                    None \<Rightarrow> Inl TypeError
                  | Some ss \<Rightarrow> Inr (intercalate sep (sort ss)))"

text \<open>\<^verbatim>\<open>x[:100]\<close>: strings and lists can be sliced.\<close>

fun py_prefix_100 :: "pyval \<Rightarrow> py_exception + pyval" where
  "py_prefix_100 (PStr s) = Inr (PStr (take 100 s))"
| "py_prefix_100 (PList xs) = Inr (PList (take 100 xs))"
| "py_prefix_100 x = Inl TypeError"

text \<open>
  \<^verbatim>\<open>s.find(c)\<close> and \<^verbatim>\<open>s.rfind(c)\<close> for a one-character needle: the first and the last
  index of \<open>c\<close>, or \<open>-1\<close>.
\<close>

fun first_index :: "char \<Rightarrow> string \<Rightarrow> nat option" where
  "first_index c [] = None"
| "first_index c (x # xs) = (if x = c then Some 0 else map_option Suc (first_index c xs))"

definition py_find :: "string \<Rightarrow> char \<Rightarrow> int" where
  "py_find s c = (case first_index c s of None \<Rightarrow> - 1 | Some i \<Rightarrow> int i)"

definition py_rfind :: "string \<Rightarrow> char \<Rightarrow> int" where
  "py_rfind s c =
     (case first_index c (rev s) of None \<Rightarrow> - 1 | Some i \<Rightarrow> int (length s) - 1 - int i)"

text \<open>
  \<^verbatim>\<open>s[a:b]\<close> for indices that are not negative (the only slice of this kind in the
  source is taken after both indices were checked).
\<close>

definition py_slice :: "string \<Rightarrow> int \<Rightarrow> int \<Rightarrow> string" where
  "py_slice s a b = drop (nat a) (take (nat b) s)"

text \<open>
  Numbers: \<^verbatim>\<open>int\<close>, \<^verbatim>\<open>float\<close> and \<^verbatim>\<open>bool\<close> (a subclass of \<^verbatim>\<open>int\<close>) take part in
  arithmetic and comparison; every other operand raises \<^verbatim>\<open>TypeError\<close>.
\<close>

fun num_value :: "pyval \<Rightarrow> real option" where
  "num_value (PInt i) = Some (of_int i)"
| "num_value (PFloat r) = Some r"
| "num_value (PBool b) = Some (if b then 1 else 0)"
| "num_value x = None"

text \<open>\<^verbatim>\<open>x + n\<close> and \<^verbatim>\<open>x - n\<close> for an integer literal \<open>n\<close>.\<close>

fun py_add :: "pyval \<Rightarrow> int \<Rightarrow> py_exception + pyval" where
  "py_add (PInt i) n = Inr (PInt (i + n))"
| "py_add (PFloat r) n = Inr (PFloat (r + of_int n))"
| "py_add (PBool b) n = Inr (PInt ((if b then 1 else 0) + n))"
| "py_add x n = Inl TypeError"

fun py_sub :: "pyval \<Rightarrow> int \<Rightarrow> py_exception + pyval" where
  "py_sub (PInt i) n = Inr (PInt (i - n))"
| "py_sub (PFloat r) n = Inr (PFloat (r - of_int n))"
| "py_sub (PBool b) n = Inr (PInt ((if b then 1 else 0) - n))"
| "py_sub x n = Inl TypeError"

text \<open>
  \<^verbatim>\<open>min(x, n)\<close> and \<^verbatim>\<open>max(x, n)\<close> for an integer literal \<open>n\<close>: the first argument is
  returned unless the second is strictly smaller (greater).
\<close>

definition py_min :: "pyval \<Rightarrow> int \<Rightarrow> py_exception + pyval" where
  "py_min x n =
     (case num_value x of
        None \<Rightarrow> Inl TypeError
      | Some r \<Rightarrow> Inr (if of_int n < r then PInt n else x))"

definition py_max :: "pyval \<Rightarrow> int \<Rightarrow> py_exception + pyval" where
  "py_max x n =
     (case num_value x of
        None \<Rightarrow> Inl TypeError
      | Some r \<Rightarrow> Inr (if r < of_int n then PInt n else x))"

section \<open>agent_ai/services/ai_service.py\<close>

text \<open>
  The collaborators of \<^verbatim>\<open>AIService\<close>, as parameters: the builtins \<^verbatim>\<open>hash\<close> (seeded
  per process) and \<^verbatim>\<open>str\<close>, \<^verbatim>\<open>json.loads\<close>, \<^verbatim>\<open>CCAMPrompts.format_prompt\<close> (the
  wording of the prompts), the completion provider behind \<^verbatim>\<open>_call_llm\<close>,
  \<^verbatim>\<open>RuleEngine.validate_code\<close>, the validating constructor
  \<^verbatim>\<open>AISuggestionResponse(...)\<close> (a response is represented by its \<^verbatim>\<open>.dict()\<close>) and
  \<^verbatim>\<open>datetime.utcnow().isoformat()\<close>.
\<close>

record ai_env =
  py_hash :: "string \<Rightarrow> int"
  py_str :: "pyval \<Rightarrow> string"
  json_loads :: "string \<Rightarrow> py_exception + pyval"
  format_prompt :: "string \<Rightarrow> (string \<times> pyval) list \<Rightarrow> py_exception + string"
  llm :: "string \<Rightarrow> py_exception + string"
  validate_code :: "pyval \<Rightarrow> pyval \<Rightarrow> py_exception + pyval"
  validate_response :: "pyval \<Rightarrow> py_exception + pyval"
  utcnow_isoformat :: string

text \<open>
  What a request can change: the cache, and the prompts sent to the provider so far.
\<close>

record ai_state =
  cache :: "string \<Rightarrow> (pyval \<times> nat) option"
  llm_calls :: "string list"

text \<open>
  Modelled from the spec: \<^verbatim>\<open>CacheManager.get\<close> (\<^verbatim>\<open>utils/cache_manager.py\<close> is
  missing); a "key \<rightarrow> value store with TTL", "return a cache hit unless expired". An entry
  holds its value and the time at which it expires; \<open>now\<close> is the time of the request.
\<close>

definition cache_get :: "(string \<Rightarrow> (pyval \<times> nat) option) \<Rightarrow> nat \<Rightarrow> string \<Rightarrow> pyval option" where
  "cache_get c now k =
     (case c k of None \<Rightarrow> None | Some (v, expires) \<Rightarrow> if now < expires then Some v else None)"

text \<open>
  Modelled from the spec: \<^verbatim>\<open>CacheManager.set\<close> (missing); stores the value under the
  key for \<open>ttl\<close> seconds.
\<close>

definition cache_set ::
  "(string \<Rightarrow> (pyval \<times> nat) option) \<Rightarrow> nat \<Rightarrow> string \<Rightarrow> pyval \<Rightarrow> nat \<Rightarrow>
     (string \<Rightarrow> (pyval \<times> nat) option)" where
  "cache_set c now k v ttl = c(k \<mapsto> (v, now + ttl))"

text \<open>\<^verbatim>\<open>_create_cache_key\<close>.\<close>

definition create_cache_key :: "ai_env \<Rightarrow> (string \<times> pyval) list \<Rightarrow> py_exception + string" where
  "create_cache_key env acte_data =
     and_then (py_prefix_100 (dict_get acte_data ''description_clinique'' (PStr [])))
       (\<lambda>description.
     and_then (py_join_sorted '','' (dict_get acte_data ''modificateurs'' (PList [])))
       (\<lambda>modificateurs.
     and_then
       (py_join []
          (PList [dict_get acte_data ''type_acte'' (PStr []),
                  description,
                  PStr (py_str env (dict_get acte_data ''duree_acte'' (PStr []))),
                  PStr modificateurs]))
       (\<lambda>joined. Inr (''ccam_suggestion:'' @ py_str env (PInt (py_hash env joined))))))"

text \<open>\<^verbatim>\<open>_parse_llm_response\<close>; both \<^verbatim>\<open>except\<close> clauses log and re-raise.\<close>

definition parse_llm_response ::
  "(string \<Rightarrow> py_exception + pyval) \<Rightarrow> string \<Rightarrow> py_exception + pyval" where
  "parse_llm_response loads response =
     (let json_start = py_find response CHR ''{'';
          json_end = py_rfind response CHR ''}'' + 1
      in if json_start = - 1 \<or> json_end = 0
         then Inl (ValueError (''Aucun JSON trouv'' @ [CHR 0xE9] @ '' dans la r'' @ [CHR 0xE9] @ ''ponse''))
         else loads (py_slice response json_start json_end))"

text \<open>\<^verbatim>\<open>_call_llm\<close>: one provider call, recorded in the state.\<close>

definition call_llm :: "ai_env \<Rightarrow> ai_state \<Rightarrow> string \<Rightarrow> (py_exception + string) \<times> ai_state" where
  "call_llm env st prompt = (llm env prompt, st\<lparr>llm_calls := llm_calls st @ [prompt]\<rparr>)"

text \<open>\<^verbatim>\<open>_extract_clinical_info\<close>: any exception is logged and \<^verbatim>\<open>{}\<close> is returned.\<close>

definition extract_clinical_info ::
  "ai_env \<Rightarrow> ai_state \<Rightarrow> (string \<times> pyval) list \<Rightarrow> pyval \<times> ai_state" where
  "extract_clinical_info env st acte_data =
     (case format_prompt env ''extraction''
             [(''texte_clinique'', dict_get acte_data ''description_clinique'' (PStr []))] of
        Inl e \<Rightarrow> (PDict [], st)
      | Inr prompt \<Rightarrow>
          (case call_llm env st prompt of
             (response, st1) \<Rightarrow>
               (case and_then response (parse_llm_response (json_loads env)) of
                  Inl e \<Rightarrow> (PDict [], st1)
                | Inr extracted_info \<Rightarrow> (extracted_info, st1))))"

text \<open>
  The adjustment of one score in \<^verbatim>\<open>_enrich_suggestions\<close>:
  \<^verbatim>\<open>min(score + 5, 100)\<close> when the rule check is valid, \<^verbatim>\<open>max(score - 10, 0)\<close> otherwise.
\<close>

definition adjust_score :: "bool \<Rightarrow> pyval \<Rightarrow> py_exception + pyval" where
  "adjust_score is_valid score =
     (if is_valid then and_then (py_add score 5) (\<lambda>v. py_min v 100)
      else and_then (py_sub score 10) (\<lambda>v. py_max v 0))"

text \<open>The body of the loop of \<^verbatim>\<open>_enrich_suggestions\<close>, for one suggestion.\<close>

definition enrich_suggestion ::
  "(pyval \<Rightarrow> pyval \<Rightarrow> py_exception + pyval) \<Rightarrow> pyval \<Rightarrow> pyval \<Rightarrow> py_exception + pyval" where
  "enrich_suggestion rule_engine extracted_info suggestion =
     and_then (py_getitem suggestion ''code'')
       (\<lambda>code.
     and_then (rule_engine code extracted_info)
       (\<lambda>rule_validation.
     and_then (py_mapping suggestion)
       (\<lambda>d.
     and_then (py_get rule_validation ''is_valid'' (PBool True))
       (\<lambda>is_valid.
     and_then
       (py_getitem
          (PDict (AList.update ''extracted_info'' extracted_info
                    (AList.update ''rule_validation'' rule_validation d)))
          ''score_confiance'')
       (\<lambda>score.
     and_then (adjust_score (py_truthy is_valid) score)
       (\<lambda>adjusted.
          Inr (PDict (AList.update ''score_confiance'' adjusted
                        (AList.update ''extracted_info'' extracted_info
                           (AList.update ''rule_validation'' rule_validation d))))))))))"

text \<open>The loop: the first exception leaves it.\<close>

fun enrich_all ::
  "(pyval \<Rightarrow> pyval \<Rightarrow> py_exception + pyval) \<Rightarrow> pyval \<Rightarrow> pyval list \<Rightarrow> py_exception + pyval list" where
  "enrich_all rule_engine extracted_info [] = Inr []"
| "enrich_all rule_engine extracted_info (s # ss) =
     and_then (enrich_suggestion rule_engine extracted_info s)
       (\<lambda>e. and_then (enrich_all rule_engine extracted_info ss) (\<lambda>es. Inr (e # es)))"

text \<open>
  \<^verbatim>\<open>_enrich_suggestions\<close>: on any exception the parsed response is returned as it
  came.
\<close>

definition enrich_suggestions ::
  "(pyval \<Rightarrow> pyval \<Rightarrow> py_exception + pyval) \<Rightarrow> pyval \<Rightarrow> pyval \<Rightarrow> pyval" where
  "enrich_suggestions rule_engine parsed_response extracted_info =
     (case
        and_then (py_get parsed_response ''suggestions'' (PList []))
          (\<lambda>suggestions.
        and_then (py_iter suggestions)
          (\<lambda>items.
        and_then (enrich_all rule_engine extracted_info items)
          (\<lambda>enriched_suggestions.
        and_then (py_get parsed_response ''score_confiance_global'' (PInt 0))
          (\<lambda>score_global.
        and_then (py_get parsed_response ''explication_globale'' (PStr []))
          (\<lambda>explication.
        and_then (py_get parsed_response ''questions_clarification'' (PList []))
          (\<lambda>questions.
        and_then (py_get parsed_response ''alertes'' (PList []))
          (\<lambda>alertes.
           Inr (PDict [(''suggestions'', PList enriched_suggestions),
                       (''score_confiance_global'', score_global),
                       (''explication_globale'', explication),
                       (''questions_clarification'', questions),
                       (''alertes'', alertes)]))))))))
      of Inl e \<Rightarrow> parsed_response | Inr enriched \<Rightarrow> enriched)"

text \<open>\<^verbatim>\<open>len(x)\<close>.\<close>

fun py_len :: "pyval \<Rightarrow> py_exception + int" where
  "py_len (PList xs) = Inr (int (length xs))"
| "py_len (PStr s) = Inr (int (length s))"
| "py_len (PDict d) = Inr (int (length d))"
| "py_len x = Inl TypeError"

text \<open>
  The main prompt of \<^verbatim>\<open>generate_suggestions\<close>; \<^verbatim>\<open>", ".join(...)\<close> is evaluated
  before \<^verbatim>\<open>format_prompt\<close> is called.
\<close>

definition main_prompt :: "ai_env \<Rightarrow> (string \<times> pyval) list \<Rightarrow> py_exception + string" where
  "main_prompt env acte_data =
     and_then (py_join '', '' (dict_get acte_data ''modificateurs'' (PList [])))
       (\<lambda>modificateurs.
          format_prompt env ''main_suggestion''
            [(''type_acte'', dict_get acte_data ''type_acte'' (PStr [])),
             (''description_clinique'', dict_get acte_data ''description_clinique'' (PStr [])),
             (''materiel_utilise'', dict_get acte_data ''materiel_utilise'' (PStr [])),
             (''duree_acte'', PStr (py_str env (dict_get acte_data ''duree_acte'' (PStr [])))),
             (''modificateurs'', PStr modificateurs),
             (''etablissement'', dict_get acte_data ''etablissement'' (PStr [])),
             (''service'', dict_get acte_data ''service'' (PStr []))])"

text \<open>
  \<^verbatim>\<open>AISuggestionResponse(suggestions=enriched["suggestions"], ...)\<close>: three fields
  are read with \<^verbatim>\<open>[...]\<close>, two with \<^verbatim>\<open>.get\<close>.
\<close>

definition build_response :: "ai_env \<Rightarrow> pyval \<Rightarrow> py_exception + pyval" where
  "build_response env enriched =
     and_then (py_getitem enriched ''suggestions'')
       (\<lambda>suggestions.
     and_then (py_getitem enriched ''score_confiance_global'')
       (\<lambda>score_global.
     and_then (py_getitem enriched ''explication_globale'')
       (\<lambda>explication.
     and_then (py_get enriched ''questions_clarification'' (PList []))
       (\<lambda>questions.
     and_then (py_get enriched ''alertes'' (PList []))
       (\<lambda>alertes.
          validate_response env
            (PDict [(''suggestions'', suggestions),
                    (''score_confiance_global'', score_global),
                    (''explication_globale'', explication),
                    (''questions_clarification'', questions),
                    (''alertes'', alertes)]))))))"

text \<open>
  \<^verbatim>\<open>_record_metrics\<close>: the metrics are stored for a day under
  \<^verbatim>\<open>metrics:{numero_acte}\<close>; any exception is logged and dropped.
\<close>

definition record_metrics ::
  "ai_env \<Rightarrow> nat \<Rightarrow> ai_state \<Rightarrow> (string \<times> pyval) list \<Rightarrow> pyval \<Rightarrow> ai_state" where
  "record_metrics env now st acte_data response =
     (case
        and_then (py_getitem response ''score_confiance_global'')
          (\<lambda>score_global.
        and_then (py_getitem response ''suggestions'')
          (\<lambda>suggestions.
        and_then (py_len suggestions)
          (\<lambda>n.
           Inr (PDict [(''acte_id'', dict_get acte_data ''id'' PNone),
                       (''numero_acte'', dict_get acte_data ''numero_acte'' PNone),
                       (''score_confiance'', score_global),
                       (''nombre_suggestions'', PInt n),
                       (''timestamp'', PStr (utcnow_isoformat env))]))))
      of Inl e \<Rightarrow> st
       | Inr metrics \<Rightarrow>
           st\<lparr>cache :=
                cache_set (cache st) now
                  (''metrics:'' @ py_str env (dict_get acte_data ''numero_acte'' PNone))
                  metrics 86400\<rparr>)"

text \<open>
  \<^verbatim>\<open>generate_suggestions\<close> after the cache check: extraction, the main provider
  call, parsing, enrichment, the response, the cache write with \<^verbatim>\<open>ttl=3600\<close> and the
  metrics. An exception is logged and re-raised.
\<close>

definition generate_fresh ::
  "ai_env \<Rightarrow> nat \<Rightarrow> ai_state \<Rightarrow> (string \<times> pyval) list \<Rightarrow> string \<Rightarrow>
     (py_exception + pyval) \<times> ai_state" where
  "generate_fresh env now st acte_data cache_key =
     (case extract_clinical_info env st acte_data of
        (extracted_info, st1) \<Rightarrow>
          (case main_prompt env acte_data of
             Inl e \<Rightarrow> (Inl e, st1)
           | Inr prompt \<Rightarrow>
               (case call_llm env st1 prompt of
                  (llm_response, st2) \<Rightarrow>
                    (case and_then llm_response (parse_llm_response (json_loads env)) of
                       Inl e \<Rightarrow> (Inl e, st2)
                     | Inr parsed_response \<Rightarrow>
                         (case build_response env
                                 (enrich_suggestions (validate_code env) parsed_response
                                    extracted_info) of
                            Inl e \<Rightarrow> (Inl e, st2)
                          | Inr ai_response \<Rightarrow>
                              (Inr ai_response,
                               record_metrics env now
                                 (st2\<lparr>cache :=
                                        cache_set (cache st2) now cache_key ai_response 3600\<rparr>)
                                 acte_data ai_response))))))"

text \<open>
  \<^verbatim>\<open>generate_suggestions(acte_data, force_regenerate)\<close>: the cache is consulted unless
  \<^verbatim>\<open>force_regenerate\<close>, and a truthy cached value is returned through
  \<^verbatim>\<open>AISuggestionResponse(**cached_result)\<close>.
\<close>

definition generate_suggestions ::
  "ai_env \<Rightarrow> nat \<Rightarrow> ai_state \<Rightarrow> (string \<times> pyval) list \<Rightarrow> bool \<Rightarrow>
     (py_exception + pyval) \<times> ai_state" where
  "generate_suggestions env now st acte_data force_regenerate =
     (case create_cache_key env acte_data of
        Inl e \<Rightarrow> (Inl e, st)
      | Inr cache_key \<Rightarrow>
          (case (if force_regenerate then None else cache_get (cache st) now cache_key) of
             None \<Rightarrow> generate_fresh env now st acte_data cache_key
           | Some cached_result \<Rightarrow>
               if py_truthy cached_result then (validate_response env cached_result, st)
               else generate_fresh env now st acte_data cache_key))"

section \<open>Stand-ins for the collaborators of the AI service\<close>

text \<open>
  Concrete collaborators on which the service is run below: decimal \<^verbatim>\<open>str\<close> for the
  values that occur, the length as hash, a decoder that knows one JSON document and rejects
  every other text, a provider that answers the main prompt with \<open>answer\<close> and fails on
  every other prompt, a rule engine that answers \<open>verdict\<close>, and a response model that
  accepts what it is given.
\<close>

fun decimal :: "nat \<Rightarrow> string" where
  "decimal n = (if n < 10 then [char_of (48 + n)] else decimal (n div 10) @ [char_of (48 + n mod 10)])"

fun example_str :: "pyval \<Rightarrow> string" where
  "example_str (PStr s) = s"
| "example_str (PInt i) = (if i < 0 then CHR ''-'' # decimal (nat (- i)) else decimal (nat i))"
| "example_str PNone = ''None''"
| "example_str x = ''?''"

text \<open>
  The JSON text of one answer, between its braces, and the value it decodes to. A name or
  a string of the document stands between double quotes.
\<close>

definition quoted :: "string \<Rightarrow> string" where
  "quoted s = CHR 0x22 # s @ [CHR 0x22]"

definition example_json_body :: string where
  "example_json_body =
     quoted ''suggestions'' @ '': [{'' @
       quoted ''code'' @ '': '' @ quoted ''HHFA001'' @ '', '' @
       quoted ''libelle'' @ '': '' @ quoted ''Pose de stent'' @ '', '' @
       quoted ''score_confiance'' @ '': 90, '' @
       quoted ''explication'' @ '': '' @ quoted ''stent'' @ ''}], '' @
     quoted ''score_confiance_global'' @ '': 90, '' @
     quoted ''explication_globale'' @ '': '' @ quoted ''stent''"

definition example_json :: string where
  "example_json = CHR ''{'' # example_json_body @ [CHR ''}'']"

definition example_answer :: string where
  "example_answer = ''Voici: '' @ example_json @ '' fin''"

definition example_document :: pyval where
  "example_document =
     PDict [(''suggestions'',
             PList [PDict [(''code'', PStr ''HHFA001''), (''libelle'', PStr ''Pose de stent''),
                           (''score_confiance'', PInt 90), (''explication'', PStr ''stent'')]]),
            (''score_confiance_global'', PInt 90),
            (''explication_globale'', PStr ''stent'')]"

definition example_loads :: "string \<Rightarrow> py_exception + pyval" where
  "example_loads s = (if s = example_json then Inr example_document else Inl JSONDecodeError)"

definition example_env :: "py_exception + string \<Rightarrow> pyval \<Rightarrow> ai_env" where
  "example_env answer verdict =
     \<lparr>py_hash = (\<lambda>s. int (length s)),
      py_str = example_str,
      json_loads = example_loads,
      format_prompt = (\<lambda>name kwargs. Inr name),
      llm = (\<lambda>prompt. if prompt = ''main_suggestion'' then answer
                       else Inl (OtherError ''timeout'')),
      validate_code = (\<lambda>code extracted_info. Inr verdict),
      validate_response = Inr,
      utcnow_isoformat = ''2024-01-01T00:00:00''\<rparr>"

definition example_acte_data :: "(string \<times> pyval) list" where
  "example_acte_data =
     [(''numero_acte'', PStr ''A-1''),
      (''type_acte'', PStr ''cardiologie''),
      (''description_clinique'', PStr ''Pose de stent coronaire''),
      (''duree_acte'', PInt 45),
      (''modificateurs'', PList [])]"

definition empty_state :: ai_state where
  "empty_state = \<lparr>cache = (\<lambda>k. None), llm_calls = []\<rparr>"





text \<open>
  Candidates as the provider returns them and as the enrichment leaves them, a rule engine
  with a fixed verdict, and a parsed response that holds the given candidates.
\<close>

definition candidate :: "pyval \<Rightarrow> pyval" where
  "candidate score = PDict [(''code'', PStr ''HHFA001''), (''score_confiance'', score)]"

definition enriched_candidate :: "pyval \<Rightarrow> bool \<Rightarrow> pyval" where
  "enriched_candidate score b =
     PDict [(''code'', PStr ''HHFA001''), (''score_confiance'', score),
            (''rule_validation'', PDict [(''is_valid'', PBool b)]),
            (''extracted_info'', PDict [])]"

definition verdict :: "bool \<Rightarrow> pyval \<Rightarrow> pyval \<Rightarrow> py_exception + pyval" where
  "verdict b code extracted_info = Inr (PDict [(''is_valid'', PBool b)])"

definition candidates :: "pyval list \<Rightarrow> pyval" where
  "candidates cs = PDict [(''suggestions'', PList cs)]"

text \<open>
  The provider of the specification's example scenario, the response it leads to, and the
  state after that first request at time 1000.
\<close>

definition example_provider :: ai_env where
  "example_provider =
     example_env (Inr example_answer) (PDict [(''is_valid'', PBool True)])"

definition example_response :: pyval where
  "example_response =
     PDict [(''suggestions'',
             PList [PDict [(''code'', PStr ''HHFA001''), (''libelle'', PStr ''Pose de stent''),
                           (''score_confiance'', PInt 95), (''explication'', PStr ''stent''),
                           (''rule_validation'', PDict [(''is_valid'', PBool True)]),
                           (''extracted_info'', PDict [])]]),
            (''score_confiance_global'', PInt 90),
            (''explication_globale'', PStr ''stent''),
            (''questions_clarification'', PList []),
            (''alertes'', PList [])]"

text \<open>
  The same provider, except that it answers every other prompt (the extraction prompt
  among them) with a text that holds no object.
\<close>

definition chatty_provider :: ai_env where
  "chatty_provider =
     example_provider
       \<lparr>llm := (\<lambda>prompt. if prompt = ''main_suggestion'' then Inr example_answer
                        else Inr ''pas de json'')\<rparr>"


text \<open>
  Two more providers: one that answers every prompt with a text that holds no object, and
  one that answers every prompt with two JSON documents side by side, which a JSON decoder
  does not accept as one document.
\<close>

definition objectless_provider :: ai_env where
  "objectless_provider = example_provider\<lparr>llm := (\<lambda>prompt. Inr ''pas de json'')\<rparr>"

definition two_objects :: string where
  "two_objects = example_json @ '' '' @ example_json"

definition two_object_provider :: ai_env where
  "two_object_provider = example_provider\<lparr>llm := (\<lambda>prompt. Inr two_objects)\<rparr>"

definition example_metrics :: pyval where
  "example_metrics =
     PDict [(''acte_id'', PNone), (''numero_acte'', PStr ''A-1''), (''score_confiance'', PInt 90),
            (''nombre_suggestions'', PInt 1), (''timestamp'', PStr ''2024-01-01T00:00:00'')]"

definition after_first_request :: ai_state where
  "after_first_request =
     \<lparr>cache = cache_set (cache_set (\<lambda>k. None) 1000 ''ccam_suggestion:36'' example_response 3600)
                1000 ''metrics:A-1'' example_metrics 86400,
      llm_calls = [''extraction'', ''main_suggestion'']\<rparr>"

section \<open>Properties of the validation handlers\<close>


lemmas error_defs = not_found_def forbidden_def already_validated_def already_processed_def
  override_on_validated_def low_confidence_def validation_failed_def rejection_failed_def
  override_failed_def

lemmas mem_defs = mem_services_def mem_get_acte_by_id_def mem_update_acte_def mem_validate_acte_def
  mem_reject_acte_def mem_update_acte_blockchain_info_def mem_update_acte_suggestion_def
  mem_create_override_def mem_update_override_blockchain_info_def mem_log_audit_action_def

lemmas example_defs = pending_acte_def db_with_def medecin_def validation_request_def
  override_request_def

lemma low_confidence_distinct:
  "not_found \<noteq> low_confidence" "forbidden \<noteq> low_confidence"
  "already_validated \<noteq> low_confidence" "validation_failed e \<noteq> low_confidence"
  by (simp_all add: error_defs)

lemma validate_acte_try_not_low:
  "fst (validate_acte_try svc db ts acte_id a v u) \<noteq> Inl low_confidence"
  by (simp add: validate_acte_try_def low_confidence_distinct split: sum.splits)

lemma validate_acte_try_force:
  "validate_acte_try svc db ts acte_id a (v\<lparr>force_validation := f\<rparr>) u =
     validate_acte_try svc db ts acte_id a v u"
  by (simp add: validate_acte_try_def cong: sum.case_cong)

subsection \<open>Terminal states\<close>

text \<open>
  C2. An act whose status is already \<^verbatim>\<open>valide\<close> or \<^verbatim>\<open>rejete\<close> cannot be moved:
  every further validate, reject or override attempt is refused and leaves the database
  and the task queue as they were. The refusal is the handler's "already finalised"
  HTTP 400 for every caller who passes the permission test that precedes it (access
  control is outside the specification's scope); a caller who does not pass it gets
  HTTP 403, with the same unchanged state.
\<close>

theorem finalized_acte_is_terminal:
  assumes "get_acte_by_id svc db acte_id = Some a"
    and "statut a \<in> set [''valide'', ''rejete'']"
  shows "validate_acte svc db ts acte_id validation_data current_user =
           (Inl (if access_denied a current_user then forbidden else already_validated), db, ts) \<and>
         reject_acte svc db ts acte_id reason current_user =
           (Inl (if access_denied a current_user then forbidden else already_processed), db, ts) \<and>
         create_override svc db ts acte_id override_data current_user =
           (Inl (if access_denied a current_user then forbidden else override_on_validated), db, ts)"
  using assms by (simp add: validate_acte_def reject_acte_def create_override_def)

theorem finalized_acte_is_terminal_witness:
  "validate_acte (mem_services (Inr ''0xabc'')) (db_with validated_acte) [] 1
       (validation_request True) medecin =
     (Inl already_validated, db_with validated_acte, []) \<and>
   reject_acte (mem_services (Inr ''0xabc'')) (db_with validated_acte) [] 1 ''doublon'' medecin =
     (Inl already_processed, db_with validated_acte, []) \<and>
   create_override (mem_services (Inr ''0xabc'')) (db_with validated_acte) [] 1
       (override_request ''erreur de saisie'') medecin =
     (Inl override_on_validated, db_with validated_acte, [])"
proof -
  have g: "get_acte_by_id (mem_services (Inr ''0xabc'')) (db_with validated_acte) 1 =
      Some validated_acte"
    by (simp add: mem_defs example_defs)
  have s: "statut validated_acte \<in> set [''valide'', ''rejete'']"
    by (simp add: validated_acte_def)
  have p: "\<not> access_denied validated_acte medecin"
    by (simp add: validated_acte_def example_defs access_denied_def)
  show ?thesis
    using finalized_acte_is_terminal [OF g s, of "[]" "validation_request True" medecin
        "''doublon''" "override_request ''erreur de saisie''"] p
    by simp
qed

subsection \<open>The low-confidence guard\<close>

text \<open>
  C10. For an act whose stored confidence score is \<^verbatim>\<open>None\<close> or 0, validation without
  \<^verbatim>\<open>force_validation\<close> is never refused for low confidence and behaves exactly like the
  forced call. The guard fires precisely when the act exists, the caller is permitted, the
  act is not finalised, \<^verbatim>\<open>force_validation\<close> is false and the score is a non-zero value
  strictly below 50.
\<close>

theorem falsy_score_skips_low_confidence_guard:
  "(get_acte_by_id svc db acte_id = Some a \<and>
      (score_confiance a = None \<or> score_confiance a = Some 0) \<longrightarrow>
        fst (validate_acte svc db ts acte_id v u) \<noteq> Inl low_confidence \<and>
        validate_acte svc db ts acte_id v u =
          validate_acte svc db ts acte_id (v\<lparr>force_validation := True\<rparr>) u) \<and>
   (fst (validate_acte svc db ts acte_id v u) = Inl low_confidence \<longleftrightarrow>
      (\<exists>b s. get_acte_by_id svc db acte_id = Some b \<and> \<not> access_denied b u \<and>
          statut b \<notin> set [''valide'', ''rejete''] \<and> \<not> force_validation v \<and>
          score_confiance b = Some s \<and> s \<noteq> 0 \<and> s < 50))"
proof (intro conjI impI)
  assume h: "get_acte_by_id svc db acte_id = Some a \<and>
      (score_confiance a = None \<or> score_confiance a = Some 0)"
  then have ng: "\<not> low_confidence_guard w a" for w
    by (auto simp: low_confidence_guard_def)
  show "validate_acte svc db ts acte_id v u =
          validate_acte svc db ts acte_id (v\<lparr>force_validation := True\<rparr>) u"
    using h by (simp add: validate_acte_def ng validate_acte_try_force)
  show "fst (validate_acte svc db ts acte_id v u) \<noteq> Inl low_confidence"
    using h by (simp add: validate_acte_def ng validate_acte_try_not_low low_confidence_distinct)
next
  show "fst (validate_acte svc db ts acte_id v u) = Inl low_confidence \<longleftrightarrow>
      (\<exists>b s. get_acte_by_id svc db acte_id = Some b \<and> \<not> access_denied b u \<and>
          statut b \<notin> set [''valide'', ''rejete''] \<and> \<not> force_validation v \<and>
          score_confiance b = Some s \<and> s \<noteq> 0 \<and> s < 50)"
  proof (cases "get_acte_by_id svc db acte_id")
    case None
    then show ?thesis by (simp add: validate_acte_def low_confidence_distinct)
  next
    case (Some b)
    then show ?thesis
      by (cases "score_confiance b")
         (simp_all add: validate_acte_def low_confidence_guard_def low_confidence_distinct
            validate_acte_try_not_low)
  qed
qed

theorem falsy_score_skips_low_confidence_guard_witness:
  "get_acte_by_id (mem_services (Inr ''0xabc'')) (db_with (pending_acte (Some 0))) 1 =
     Some (pending_acte (Some 0)) \<and>
   score_confiance (pending_acte (Some 0)) = Some 0 \<and>
   fst (validate_acte (mem_services (Inr ''0xabc'')) (db_with (pending_acte (Some 0))) [] 1
          (validation_request False) medecin) \<noteq> Inl low_confidence \<and>
   validate_acte (mem_services (Inr ''0xabc'')) (db_with (pending_acte (Some 0))) [] 1
       (validation_request False) medecin =
     validate_acte (mem_services (Inr ''0xabc'')) (db_with (pending_acte (Some 0))) [] 1
       ((validation_request False)\<lparr>force_validation := True\<rparr>) medecin"
proof -
  have g: "get_acte_by_id (mem_services (Inr ''0xabc'')) (db_with (pending_acte (Some 0))) 1 =
      Some (pending_acte (Some 0))"
    by (simp add: mem_defs example_defs)
  have z: "score_confiance (pending_acte (Some 0)) = Some 0"
    by (simp add: pending_acte_def)
  show ?thesis
    using falsy_score_skips_low_confidence_guard [of "mem_services (Inr ''0xabc'')"
        "db_with (pending_acte (Some 0))" 1 "pending_acte (Some 0)" "[]"
        "validation_request False" medecin] g z
    by blast
qed

text \<open>
  C4. The specification asks that a pending act with a score below 50 is refused unless
  forced. At score 0 the handler does not refuse: the unforced call on the pending act 1
  with score 0 answers with the success response and the act is stored as \<^verbatim>\<open>valide\<close>.
\<close>

theorem zero_score_is_validated_without_force:
  "fst (validate_acte (mem_services (Inr ''0xabc'')) (db_with (pending_acte (Some 0))) [] 1
          (validation_request False) medecin) =
     Inr \<lparr>response_message = ''Acte valid'' @ [CHR 0xE9] @ '' avec succ'' @ [CHR 0xE8] @ ''s'',
          response_acte_id = 1, response_transaction_hash = ''0xabc'',
          response_statut = ''valide''\<rparr> \<and>
   map_option statut
     (mem_get_acte_by_id
        (fst (snd (validate_acte (mem_services (Inr ''0xabc'')) (db_with (pending_acte (Some 0)))
           [] 1 (validation_request False) medecin))) 1) = Some ''valide''"
  by (simp add: validate_acte_def validate_acte_try_def mem_defs example_defs access_denied_def
      low_confidence_guard_def justification_or_standard_def)

text \<open>A non-zero score below 50 is refused as specified, with nothing changed.\<close>

lemma low_score_is_refused:
  assumes "get_acte_by_id svc db acte_id = Some a" and "\<not> access_denied a u"
    and "statut a \<notin> set [''valide'', ''rejete'']" and "\<not> force_validation v"
    and "score_confiance a = Some s" and "s \<noteq> 0" and "s < 50"
  shows "validate_acte svc db ts acte_id v u = (Inl low_confidence, db, ts)"
  using assms by (simp add: validate_acte_def low_confidence_guard_def)

lemma validate_acte_try_tasks:
  "fst (validate_acte_try svc db ts i a v u) = Inr r \<Longrightarrow>
     snd (snd (validate_acte_try svc db ts i a v u)) =
       ts @ [LogAuditAction i (user_id u) ''validate_acte'' ''acte''
               [(''code_ccam_final'', PStr (validation_code_ccam_final v)),
                (''statut'', PStr ''valide''),
                (''transaction_hash'', PStr (response_transaction_hash r))]]"
  by (auto simp: validate_acte_try_def split: sum.splits)

lemma reject_acte_try_tasks:
  "fst (reject_acte_try svc db ts i reason u) = Inr r \<Longrightarrow>
     snd (snd (reject_acte_try svc db ts i reason u)) =
       ts @ [LogAuditAction i (user_id u) ''reject_acte'' ''acte''
               [(''statut'', PStr ''rejete''),
                (''reason'', PStr reason),
                (''transaction_hash'', PStr (response_transaction_hash r))]]"
  by (auto simp: reject_acte_try_def split: sum.splits)

lemma create_override_try_tasks:
  "fst (create_override_try svc db ts i od u) = Inr ov \<Longrightarrow>
     \<exists>tx. snd (snd (create_override_try svc db ts i od u)) =
       ts @ [LogAuditAction i (user_id u) ''create_override'' ''override''
               [(''override_id'', PInt (override_id ov)),
                (''code_ccam_override'', PStr (code_ccam_override od)),
                (''transaction_hash'', PStr tx)]]"
  by (auto simp: create_override_try_def split: sum.splits prod.splits)

lemma handlers_ignore_log_audit_action:
  "validate_acte (svc\<lparr>log_audit_action := f\<rparr>) db ts i v u = validate_acte svc db ts i v u"
  "reject_acte (svc\<lparr>log_audit_action := f\<rparr>) db ts i reason u = reject_acte svc db ts i reason u"
  "create_override (svc\<lparr>log_audit_action := f\<rparr>) db ts i od u = create_override svc db ts i od u"
proof -
  have t: "validate_acte_try (svc\<lparr>log_audit_action := f\<rparr>) db ts i a v u =
      validate_acte_try svc db ts i a v u" for a
    by (simp add: validate_acte_try_def cong: sum.case_cong)
  have r: "reject_acte_try (svc\<lparr>log_audit_action := f\<rparr>) db ts i reason u =
      reject_acte_try svc db ts i reason u"
    by (simp add: reject_acte_try_def cong: sum.case_cong)
  have c: "create_override_try (svc\<lparr>log_audit_action := f\<rparr>) db ts i od u =
      create_override_try svc db ts i od u"
    by (simp add: create_override_try_def cong: sum.case_cong prod.case_cong)
  show "validate_acte (svc\<lparr>log_audit_action := f\<rparr>) db ts i v u = validate_acte svc db ts i v u"
    by (simp add: validate_acte_def t split: option.splits)
  show "reject_acte (svc\<lparr>log_audit_action := f\<rparr>) db ts i reason u =
      reject_acte svc db ts i reason u"
    by (simp add: reject_acte_def r split: option.splits)
  show "create_override (svc\<lparr>log_audit_action := f\<rparr>) db ts i od u =
      create_override svc db ts i od u"
    by (simp add: create_override_def c split: option.splits)
qed

lemma validate_acte_success_try:
  "fst (validate_acte svc db ts i v u) = Inr r \<Longrightarrow>
     \<exists>a. validate_acte svc db ts i v u = validate_acte_try svc db ts i a v u"
  by (auto simp: validate_acte_def split: option.splits if_splits)

lemma reject_acte_success_try:
  "fst (reject_acte svc db ts i reason u) = Inr r \<Longrightarrow>
     reject_acte svc db ts i reason u = reject_acte_try svc db ts i reason u"
  by (auto simp: reject_acte_def split: option.splits if_splits)

lemma create_override_success_try:
  "fst (create_override svc db ts i od u) = Inr ov \<Longrightarrow>
     create_override svc db ts i od u = create_override_try svc db ts i od u"
  by (auto simp: create_override_def split: option.splits if_splits)

subsection \<open>Audit logging\<close>

text \<open>
  C1, as amended. Every successful validate, reject or override-creation call appends
  exactly one \<^verbatim>\<open>log_audit_action\<close> task to the background queue, carrying the act's id,
  the caller's id and the matching action name. The handlers never call
  \<^verbatim>\<open>log_audit_action\<close> themselves (their result does not depend on it): the AuditEntry
  is written only when the task runs, after the response.
\<close>

theorem success_schedules_one_audit_task:
  "(\<forall>r. fst (validate_acte svc db ts i v u) = Inr r \<longrightarrow>
       snd (snd (validate_acte svc db ts i v u)) =
         ts @ [LogAuditAction i (user_id u) ''validate_acte'' ''acte''
                 [(''code_ccam_final'', PStr (validation_code_ccam_final v)),
                  (''statut'', PStr ''valide''),
                  (''transaction_hash'', PStr (response_transaction_hash r))]]) \<and>
   (\<forall>r. fst (reject_acte svc db ts i reason u) = Inr r \<longrightarrow>
       snd (snd (reject_acte svc db ts i reason u)) =
         ts @ [LogAuditAction i (user_id u) ''reject_acte'' ''acte''
                 [(''statut'', PStr ''rejete''),
                  (''reason'', PStr reason),
                  (''transaction_hash'', PStr (response_transaction_hash r))]]) \<and>
   (\<forall>ov. fst (create_override svc db ts i od u) = Inr ov \<longrightarrow>
       (\<exists>tx. snd (snd (create_override svc db ts i od u)) =
         ts @ [LogAuditAction i (user_id u) ''create_override'' ''override''
                 [(''override_id'', PInt (override_id ov)),
                  (''code_ccam_override'', PStr (code_ccam_override od)),
                  (''transaction_hash'', PStr tx)]])) \<and>
   validate_acte (svc\<lparr>log_audit_action := f\<rparr>) db ts i v u = validate_acte svc db ts i v u \<and>
   reject_acte (svc\<lparr>log_audit_action := f\<rparr>) db ts i reason u =
     reject_acte svc db ts i reason u \<and>
   create_override (svc\<lparr>log_audit_action := f\<rparr>) db ts i od u =
     create_override svc db ts i od u"
proof (intro conjI allI impI)
  fix r assume s: "fst (validate_acte svc db ts i v u) = Inr r"
  from validate_acte_success_try [OF s]
  obtain a where e: "validate_acte svc db ts i v u = validate_acte_try svc db ts i a v u" ..
  show "snd (snd (validate_acte svc db ts i v u)) =
         ts @ [LogAuditAction i (user_id u) ''validate_acte'' ''acte''
                 [(''code_ccam_final'', PStr (validation_code_ccam_final v)),
                  (''statut'', PStr ''valide''),
                  (''transaction_hash'', PStr (response_transaction_hash r))]]"
    using s unfolding e by (rule validate_acte_try_tasks)
next
  fix r assume s: "fst (reject_acte svc db ts i reason u) = Inr r"
  show "snd (snd (reject_acte svc db ts i reason u)) =
         ts @ [LogAuditAction i (user_id u) ''reject_acte'' ''acte''
                 [(''statut'', PStr ''rejete''),
                  (''reason'', PStr reason),
                  (''transaction_hash'', PStr (response_transaction_hash r))]]"
    using s unfolding reject_acte_success_try [OF s] by (rule reject_acte_try_tasks)
next
  fix ov assume s: "fst (create_override svc db ts i od u) = Inr ov"
  show "\<exists>tx. snd (snd (create_override svc db ts i od u)) =
         ts @ [LogAuditAction i (user_id u) ''create_override'' ''override''
                 [(''override_id'', PInt (override_id ov)),
                  (''code_ccam_override'', PStr (code_ccam_override od)),
                  (''transaction_hash'', PStr tx)]]"
    using s unfolding create_override_success_try [OF s] by (rule create_override_try_tasks)
qed (simp_all add: handlers_ignore_log_audit_action)

lemmas run_defs = validate_acte_def validate_acte_try_def reject_acte_def reject_acte_try_def
  create_override_def create_override_try_def mem_defs example_defs access_denied_def
  low_confidence_guard_def justification_or_standard_def Let_def


text \<open>
  The claim as stated fails: the validation of act 1 returns success while the audit log
  is as empty as it was before the call.
\<close>

theorem success_leaves_audit_log_empty:
  "fst (validate_acte (mem_services (Inr ''0xabc'')) (db_with (pending_acte (Some 90))) [] 1
          (validation_request False) medecin) =
     Inr \<lparr>response_message = ''Acte valid'' @ [CHR 0xE9] @ '' avec succ'' @ [CHR 0xE8] @ ''s'',
          response_acte_id = 1, response_transaction_hash = ''0xabc'',
          response_statut = ''valide''\<rparr> \<and>
   audit_entries (db_with (pending_acte (Some 90))) = [] \<and>
   audit_entries
     (fst (snd (validate_acte (mem_services (Inr ''0xabc'')) (db_with (pending_acte (Some 90)))
        [] 1 (validation_request False) medecin))) = []"
  by (simp add: run_defs)


theorem success_schedules_one_audit_task_witness:
  "(\<exists>r. fst (validate_acte (mem_services (Inr ''0xabc'')) (db_with (pending_acte (Some 90))) [] 1
           (validation_request False) medecin) = Inr r) \<and>
   snd (snd (validate_acte (mem_services (Inr ''0xabc'')) (db_with (pending_acte (Some 90))) [] 1
           (validation_request False) medecin)) =
     [LogAuditAction 1 7 ''validate_acte'' ''acte''
        [(''code_ccam_final'', PStr ''HHFA001''), (''statut'', PStr ''valide''),
         (''transaction_hash'', PStr ''0xabc'')]] \<and>
   (\<exists>r. fst (reject_acte (mem_services (Inr ''0xabc'')) (db_with (pending_acte (Some 90))) [] 1
           ''doublon'' medecin) = Inr r) \<and>
   snd (snd (reject_acte (mem_services (Inr ''0xabc'')) (db_with (pending_acte (Some 90))) [] 1
           ''doublon'' medecin)) =
     [LogAuditAction 1 7 ''reject_acte'' ''acte''
        [(''statut'', PStr ''rejete''), (''reason'', PStr ''doublon''),
         (''transaction_hash'', PStr ''0xabc'')]] \<and>
   (\<exists>ov. fst (create_override (mem_services (Inr ''0xabc'')) (db_with (pending_acte (Some 90))) [] 1
           (override_request ''erreur de saisie'') medecin) = Inr ov) \<and>
   (\<exists>tx. snd (snd (create_override (mem_services (Inr ''0xabc'')) (db_with (pending_acte (Some 90)))
           [] 1 (override_request ''erreur de saisie'') medecin)) =
     [LogAuditAction 1 7 ''create_override'' ''override''
        [(''override_id'', PInt 1), (''code_ccam_override'', PStr ''HHFA002''),
         (''transaction_hash'', PStr tx)]])"
proof -
  let ?S = "mem_services (Inr ''0xabc'')" and ?D = "db_with (pending_acte (Some 90))"
  have v: "fst (validate_acte ?S ?D [] 1 (validation_request False) medecin) =
      Inr \<lparr>response_message = ''Acte valid'' @ [CHR 0xE9] @ '' avec succ'' @ [CHR 0xE8] @ ''s'',
          response_acte_id = 1, response_transaction_hash = ''0xabc'',
          response_statut = ''valide''\<rparr>"
    by (simp add: run_defs)
  have r: "fst (reject_acte ?S ?D [] 1 ''doublon'' medecin) =
      Inr \<lparr>response_message = ''Acte rejet'' @ [CHR 0xE9] @ '' avec succ'' @ [CHR 0xE8] @ ''s'',
          response_acte_id = 1, response_transaction_hash = ''0xabc'',
          response_statut = ''rejete''\<rparr>"
    by (simp add: run_defs)
  have c: "fst (create_override ?S ?D [] 1 (override_request ''erreur de saisie'') medecin) =
      Inr \<lparr>override_id = 1, override_acte_id = 1, override_utilisateur_id = 7,
          override_code_ccam_original = ''HHFA001'', override_code_ccam_override = ''HHFA002'',
          override_justification = ''erreur de saisie'', override_type_override = ''correction'',
          override_is_approved = False, override_transaction_hash = None\<rparr>"
    by (simp add: run_defs)
  have u: "user_id medecin = 7"
    and q: "validation_code_ccam_final (validation_request False) = ''HHFA001''"
    and o: "code_ccam_override (override_request ''erreur de saisie'') = ''HHFA002''"
    by (simp_all add: example_defs)
  show ?thesis
    using success_schedules_one_audit_task [of ?S ?D "[]" 1 "validation_request False" medecin
        "''doublon''" "override_request ''erreur de saisie''" mem_log_audit_action] v r c u q o
    by simp
qed

text \<open>Once the scheduled task runs, it writes the one entry.\<close>

lemma scheduled_task_writes_one_entry:
  "map_sum id audit_entries
     (run_background_task (mem_services (Inr ''0xabc''))
        (fst (snd (validate_acte (mem_services (Inr ''0xabc'')) (db_with (pending_acte (Some 90)))
           [] 1 (validation_request False) medecin)))
        (LogAuditAction 1 7 ''validate_acte'' ''acte''
           [(''code_ccam_final'', PStr ''HHFA001''), (''statut'', PStr ''valide''),
            (''transaction_hash'', PStr ''0xabc'')])) =
   Inr [\<lparr>audit_acte_id = Some 1, audit_utilisateur_id = Some 7, audit_action = ''validate_acte'',
         audit_entity_type = ''acte'',
         audit_new_values =
           [(''code_ccam_final'', PStr ''HHFA001''), (''statut'', PStr ''valide''),
            (''transaction_hash'', PStr ''0xabc'')]\<rparr>]"
  by (simp add: run_defs)

subsection \<open>Ledger failures\<close>

lemma validate_acte_try_success:
  assumes "fst (validate_acte_try svc db ts i a v u) = Inr r"
  shows "record_validation svc i (validation_code_ccam_final v) (code_ccam_suggere a) (user_id u)
           (justification_or_standard (validation_justification v)) =
         Inr (response_transaction_hash r)"
  using assms by (auto simp: validate_acte_try_def split: sum.splits)

lemma validate_acte_success:
  assumes "fst (validate_acte svc db ts i v u) = Inr r"
  shows "\<exists>a. get_acte_by_id svc db i = Some a \<and>
           record_validation svc i (validation_code_ccam_final v) (code_ccam_suggere a) (user_id u)
             (justification_or_standard (validation_justification v)) =
           Inr (response_transaction_hash r)"
proof (cases "get_acte_by_id svc db i")
  case None
  with assms show ?thesis by (simp add: validate_acte_def)
next
  case (Some a)
  with assms have "fst (validate_acte_try svc db ts i a v u) = Inr r"
    by (simp add: validate_acte_def split: if_splits)
  from validate_acte_try_success [OF this] Some show ?thesis by simp
qed

lemma reject_acte_try_success:
  assumes "fst (reject_acte_try svc db ts i reason u) = Inr r"
  shows "record_rejection svc i (user_id u) reason = Inr (response_transaction_hash r)"
  using assms by (auto simp: reject_acte_try_def split: sum.splits)

lemma reject_acte_success:
  assumes "fst (reject_acte svc db ts i reason u) = Inr r"
  shows "record_rejection svc i (user_id u) reason = Inr (response_transaction_hash r)"
proof (cases "get_acte_by_id svc db i")
  case None
  with assms show ?thesis by (simp add: reject_acte_def)
next
  case (Some a)
  with assms have "fst (reject_acte_try svc db ts i reason u) = Inr r"
    by (simp add: reject_acte_def split: if_splits)
  then show ?thesis by (rule reject_acte_try_success)
qed

lemma create_override_try_success:
  assumes "fst (create_override_try svc db ts i od u) = Inr ov"
  shows "\<exists>db1 tx. service_create_override svc db i (user_id u) (code_ccam_original od)
             (code_ccam_override od) (justification od) (type_override od) = Inr (ov, db1) \<and>
           record_override svc (override_id ov) i (code_ccam_original od) (code_ccam_override od)
             (user_id u) (justification od) = Inr tx"
  using assms by (auto simp: create_override_try_def split: sum.splits prod.splits)

lemma create_override_success:
  assumes "fst (create_override svc db ts i od u) = Inr ov"
  shows "\<exists>db1 tx. service_create_override svc db i (user_id u) (code_ccam_original od)
             (code_ccam_override od) (justification od) (type_override od) = Inr (ov, db1) \<and>
           record_override svc (override_id ov) i (code_ccam_original od) (code_ccam_override od)
             (user_id u) (justification od) = Inr tx"
proof (cases "get_acte_by_id svc db i")
  case None
  with assms show ?thesis by (simp add: create_override_def)
next
  case (Some a)
  with assms have "fst (create_override_try svc db ts i od u) = Inr ov"
    by (simp add: create_override_def split: if_splits)
  then show ?thesis by (rule create_override_try_success)
qed

lemma ledger_failure_validate:
  assumes "get_acte_by_id svc db i = Some a" and "\<not> access_denied a u"
    and "statut a \<notin> set [''valide'', ''rejete'']" and "\<not> low_confidence_guard v a"
    and "service_validate_acte svc db i (validation_code_ccam_final v) (user_id u)
        (validation_justification v) = Inr db1"
    and "record_validation svc i (validation_code_ccam_final v) (code_ccam_suggere a) (user_id u)
        (justification_or_standard (validation_justification v)) = Inl e"
  shows "fst (validate_acte svc db ts i v u) = Inl (validation_failed e) \<and>
         snd (snd (validate_acte svc db ts i v u)) = ts"
  using assms by (simp add: validate_acte_def validate_acte_try_def)

lemma ledger_failure_reject:
  assumes "get_acte_by_id svc db i = Some a" and "\<not> access_denied a u"
    and "statut a \<notin> set [''valide'', ''rejete'']"
    and "service_reject_acte svc db i (user_id u) reason = Inr db1"
    and "record_rejection svc i (user_id u) reason = Inl e"
  shows "fst (reject_acte svc db ts i reason u) = Inl (rejection_failed e) \<and>
         snd (snd (reject_acte svc db ts i reason u)) = ts"
  using assms by (simp add: reject_acte_def reject_acte_try_def)

lemma ledger_failure_override:
  assumes "get_acte_by_id svc db i = Some a" and "\<not> access_denied a u"
    and "statut a \<notin> set [''valide'', ''rejete'']"
    and "service_create_override svc db i (user_id u) (code_ccam_original od)
        (code_ccam_override od) (justification od) (type_override od) = Inr (ov, db1)"
    and "record_override svc (override_id ov) i (code_ccam_original od) (code_ccam_override od)
        (user_id u) (justification od) = Inl e"
  shows "fst (create_override svc db ts i od u) = Inl (override_failed e) \<and>
         snd (snd (create_override svc db ts i od u)) = ts"
  using assms by (simp add: create_override_def create_override_try_def)

text \<open>
  C3, as amended. The ledger call is awaited inside the handler's \<^verbatim>\<open>try\<close> block, so a
  ledger call that raises fails the request: validate, reject and create-override answer
  HTTP 500 carrying the ledger's message and schedule no audit task. And a request is
  reported successful only after the ledger call returned: a successful validation or
  rejection carries in its answer the transaction hash that \<^verbatim>\<open>record_validation\<close> or
  \<^verbatim>\<open>record_rejection\<close> returned for this act and caller, and a successful override
  creation answers with the override that the service created and that
  \<^verbatim>\<open>record_override\<close> anchored.
\<close>

theorem ledger_failure_fails_request:
  "(get_acte_by_id svc db i = Some a \<and> \<not> access_denied a u \<and>
      statut a \<notin> set [''valide'', ''rejete''] \<and> \<not> low_confidence_guard v a \<and>
      service_validate_acte svc db i (validation_code_ccam_final v) (user_id u)
        (validation_justification v) = Inr db1 \<and>
      record_validation svc i (validation_code_ccam_final v) (code_ccam_suggere a) (user_id u)
        (justification_or_standard (validation_justification v)) = Inl e \<longrightarrow>
        fst (validate_acte svc db ts i v u) = Inl (validation_failed e) \<and>
        snd (snd (validate_acte svc db ts i v u)) = ts) \<and>
   (get_acte_by_id svc db i = Some a \<and> \<not> access_denied a u \<and>
      statut a \<notin> set [''valide'', ''rejete''] \<and>
      service_reject_acte svc db i (user_id u) reason = Inr db1 \<and>
      record_rejection svc i (user_id u) reason = Inl e \<longrightarrow>
        fst (reject_acte svc db ts i reason u) = Inl (rejection_failed e) \<and>
        snd (snd (reject_acte svc db ts i reason u)) = ts) \<and>
   (get_acte_by_id svc db i = Some a \<and> \<not> access_denied a u \<and>
      statut a \<notin> set [''valide'', ''rejete''] \<and>
      service_create_override svc db i (user_id u) (code_ccam_original od)
        (code_ccam_override od) (justification od) (type_override od) = Inr (ov, db1) \<and>
      record_override svc (override_id ov) i (code_ccam_original od) (code_ccam_override od)
        (user_id u) (justification od) = Inl e \<longrightarrow>
        fst (create_override svc db ts i od u) = Inl (override_failed e) \<and>
        snd (snd (create_override svc db ts i od u)) = ts) \<and>
   (fst (validate_acte svc db ts i v u) = Inr r \<longrightarrow>
      (\<exists>a. get_acte_by_id svc db i = Some a \<and>
         record_validation svc i (validation_code_ccam_final v) (code_ccam_suggere a) (user_id u)
           (justification_or_standard (validation_justification v)) =
         Inr (response_transaction_hash r))) \<and>
   (fst (reject_acte svc db ts i reason u) = Inr r \<longrightarrow>
      record_rejection svc i (user_id u) reason = Inr (response_transaction_hash r)) \<and>
   (fst (create_override svc db ts i od u) = Inr created \<longrightarrow>
      (\<exists>db1 tx. service_create_override svc db i (user_id u) (code_ccam_original od)
           (code_ccam_override od) (justification od) (type_override od) = Inr (created, db1) \<and>
         record_override svc (override_id created) i (code_ccam_original od)
           (code_ccam_override od) (user_id u) (justification od) = Inr tx))"
  using ledger_failure_validate [of svc db i a u v db1 e ts]
    ledger_failure_reject [of svc db i a u reason db1 e ts]
    ledger_failure_override [of svc db i a u od ov db1 e ts]
    validate_acte_success [of svc db ts i v u r]
    reject_acte_success [of svc db ts i reason u r]
    create_override_success [of svc db ts i od u created]
  by (intro conjI impI) blast+

text \<open>
  The claim as stated fails: the local validation of act 1 succeeds, the ledger is
  unreachable, and the request is answered with HTTP 500.
\<close>

theorem ledger_failure_reported_as_error:
  "mem_validate_acte (db_with (pending_acte (Some 90))) 1 ''HHFA001'' 7 None =
     Inr (db_with ((pending_acte (Some 90))
            \<lparr>statut := ''valide'', code_ccam_final := Some ''HHFA001'', validateur_id := Some 7\<rparr>)) \<and>
   fst (validate_acte (mem_services (Inl ''ledger unreachable''))
          (db_with (pending_acte (Some 90))) [] 1 (validation_request False) medecin) =
     Inl (validation_failed ''ledger unreachable'')"
  by (simp add: run_defs)

theorem ledger_failure_fails_request_witness:
  "fst (validate_acte (mem_services (Inl ''ledger unreachable''))
          (db_with (pending_acte (Some 90))) [] 1 (validation_request False) medecin) =
     Inl (validation_failed ''ledger unreachable'') \<and>
   snd (snd (validate_acte (mem_services (Inl ''ledger unreachable''))
          (db_with (pending_acte (Some 90))) [] 1 (validation_request False) medecin)) = [] \<and>
   fst (reject_acte (mem_services (Inl ''ledger unreachable''))
          (db_with (pending_acte (Some 90))) [] 1 ''doublon'' medecin) =
     Inl (rejection_failed ''ledger unreachable'') \<and>
   snd (snd (reject_acte (mem_services (Inl ''ledger unreachable''))
          (db_with (pending_acte (Some 90))) [] 1 ''doublon'' medecin)) = [] \<and>
   fst (create_override (mem_services (Inl ''ledger unreachable''))
          (db_with (pending_acte (Some 90))) [] 1 (override_request ''erreur de saisie'')
          medecin) =
     Inl (override_failed ''ledger unreachable'') \<and>
   snd (snd (create_override (mem_services (Inl ''ledger unreachable''))
          (db_with (pending_acte (Some 90))) [] 1 (override_request ''erreur de saisie'')
          medecin)) = [] \<and>
   response_transaction_hash
     (projr (fst (validate_acte (mem_services (Inr ''0xabc''))
        (db_with (pending_acte (Some 90))) [] 1 (validation_request False) medecin))) =
     ''0xabc'' \<and>
   record_validation (mem_services (Inr ''0xabc'')) 1 ''HHFA001'' (Some ''HHFA001'') 7
     ''Validation standard'' = Inr ''0xabc'' \<and>
   response_transaction_hash
     (projr (fst (reject_acte (mem_services (Inr ''0xabc''))
        (db_with (pending_acte (Some 90))) [] 1 ''doublon'' medecin))) = ''0xabc'' \<and>
   record_rejection (mem_services (Inr ''0xabc'')) 1 7 ''doublon'' = Inr ''0xabc'' \<and>
   (\<exists>created. fst (create_override (mem_services (Inr ''0xabc''))
        (db_with (pending_acte (Some 90))) [] 1 (override_request ''erreur de saisie'')
        medecin) = Inr created \<and>
      record_override (mem_services (Inr ''0xabc'')) (override_id created) 1 ''HHFA001''
        ''HHFA002'' 7 ''erreur de saisie'' = Inr ''0xabc'')"
proof -
  let ?S = "mem_services (Inl ''ledger unreachable'')" and ?D = "db_with (pending_acte (Some 90))"
  let ?T = "mem_services (Inr ''0xabc'')"
  let ?ov = "\<lparr>override_id = 1, override_acte_id = 1, override_utilisateur_id = 7,
          override_code_ccam_original = ''HHFA001'', override_code_ccam_override = ''HHFA002'',
          override_justification = ''erreur de saisie'', override_type_override = ''correction'',
          override_is_approved = False, override_transaction_hash = None\<rparr>"
  let ?rv = "\<lparr>response_message = ''Acte valid'' @ [CHR 0xE9] @ '' avec succ'' @ [CHR 0xE8] @ ''s'',
          response_acte_id = 1, response_transaction_hash = ''0xabc'',
          response_statut = ''valide''\<rparr>"
  let ?rr = "\<lparr>response_message = ''Acte rejet'' @ [CHR 0xE9] @ '' avec succ'' @ [CHR 0xE8] @ ''s'',
          response_acte_id = 1, response_transaction_hash = ''0xabc'',
          response_statut = ''rejete''\<rparr>"
  have g: "get_acte_by_id ?S ?D 1 = Some (pending_acte (Some 90))"
    and p: "\<not> access_denied (pending_acte (Some 90)) medecin"
    and s: "statut (pending_acte (Some 90)) \<notin> set [''valide'', ''rejete'']"
    and l: "\<not> low_confidence_guard (validation_request False) (pending_acte (Some 90))"
    by (simp_all add: mem_defs example_defs access_denied_def low_confidence_guard_def)
  have sv: "service_validate_acte ?S ?D 1 (validation_code_ccam_final (validation_request False))
        (user_id medecin) (validation_justification (validation_request False)) =
      Inr (db_with ((pending_acte (Some 90))
        \<lparr>statut := ''valide'', code_ccam_final := Some ''HHFA001'', validateur_id := Some 7\<rparr>))"
    and sr: "service_reject_acte ?S ?D 1 (user_id medecin) ''doublon'' =
      Inr (db_with ((pending_acte (Some 90))\<lparr>statut := ''rejete'', validateur_id := Some 7\<rparr>))"
    and so: "service_create_override ?S ?D 1 (user_id medecin)
        (code_ccam_original (override_request ''erreur de saisie''))
        (code_ccam_override (override_request ''erreur de saisie''))
        (justification (override_request ''erreur de saisie''))
        (type_override (override_request ''erreur de saisie'')) =
      Inr (?ov, ?D\<lparr>overrides := [?ov]\<rparr>)"
    by (simp_all add: mem_defs example_defs Let_def)
  have lv: "record_validation ?S 1 (validation_code_ccam_final (validation_request False))
        (code_ccam_suggere (pending_acte (Some 90))) (user_id medecin)
        (justification_or_standard (validation_justification (validation_request False))) =
      Inl ''ledger unreachable''"
    and lr: "record_rejection ?S 1 (user_id medecin) ''doublon'' = Inl ''ledger unreachable''"
    and lo: "record_override ?S (override_id ?ov) 1
        (code_ccam_original (override_request ''erreur de saisie''))
        (code_ccam_override (override_request ''erreur de saisie'')) (user_id medecin)
        (justification (override_request ''erreur de saisie'')) = Inl ''ledger unreachable''"
    by (simp_all add: mem_services_def)
  from ledger_failure_fails_request [where svc = ?S and db = ?D and i = 1
      and a = "pending_acte (Some 90)" and u = medecin and v = "validation_request False"
      and e = "''ledger unreachable''" and ts = "[]" and r = undefined and created = undefined
      and reason = undefined and od = undefined and ov = undefined, THEN conjunct1]
    g p s l sv lv
  have fv: "fst (validate_acte ?S ?D [] 1 (validation_request False) medecin) =
        Inl (validation_failed ''ledger unreachable'') \<and>
      snd (snd (validate_acte ?S ?D [] 1 (validation_request False) medecin)) = []"
    by blast
  from ledger_failure_fails_request [where svc = ?S and db = ?D and i = 1
      and a = "pending_acte (Some 90)" and u = medecin and v = undefined
      and e = "''ledger unreachable''" and ts = "[]" and r = undefined and created = undefined
      and reason = "''doublon''" and od = undefined and ov = undefined,
      THEN conjunct2, THEN conjunct1]
    g p s sr lr
  have fr: "fst (reject_acte ?S ?D [] 1 ''doublon'' medecin) =
        Inl (rejection_failed ''ledger unreachable'') \<and>
      snd (snd (reject_acte ?S ?D [] 1 ''doublon'' medecin)) = []"
    by blast
  from ledger_failure_fails_request [where svc = ?S and db = ?D and i = 1
      and a = "pending_acte (Some 90)" and u = medecin and v = undefined
      and e = "''ledger unreachable''" and ts = "[]" and r = undefined and created = undefined
      and reason = undefined and od = "override_request ''erreur de saisie''" and ov = ?ov,
      THEN conjunct2, THEN conjunct2, THEN conjunct1]
    g p s so lo
  have fo: "fst (create_override ?S ?D [] 1 (override_request ''erreur de saisie'') medecin) =
        Inl (override_failed ''ledger unreachable'') \<and>
      snd (snd (create_override ?S ?D [] 1 (override_request ''erreur de saisie'') medecin)) = []"
    by blast
  have v: "fst (validate_acte ?T ?D [] 1 (validation_request False) medecin) = Inr ?rv"
    and r: "fst (reject_acte ?T ?D [] 1 ''doublon'' medecin) = Inr ?rr"
    and c: "fst (create_override ?T ?D [] 1 (override_request ''erreur de saisie'') medecin) =
      Inr ?ov"
    by (simp_all add: run_defs)
  have ga: "get_acte_by_id ?T ?D 1 = Some (pending_acte (Some 90))"
    by (simp add: mem_defs example_defs)
  have e: "code_ccam_suggere (pending_acte (Some 90)) = Some ''HHFA001''"
    "validation_code_ccam_final (validation_request False) = ''HHFA001''"
    "user_id medecin = 7"
    "justification_or_standard (validation_justification (validation_request False)) =
       ''Validation standard''"
    "code_ccam_original (override_request ''erreur de saisie'') = ''HHFA001''"
    "code_ccam_override (override_request ''erreur de saisie'') = ''HHFA002''"
    "justification (override_request ''erreur de saisie'') = ''erreur de saisie''"
    by (simp_all add: example_defs justification_or_standard_def)
  from ledger_failure_fails_request [where svc = ?T and db = ?D and i = 1 and u = medecin
      and v = "validation_request False" and ts = "[]" and r = ?rv and a = undefined
      and e = undefined and reason = undefined and od = undefined and ov = undefined
      and created = undefined,
      THEN conjunct2, THEN conjunct2, THEN conjunct2, THEN conjunct1] v
  have "\<exists>a. get_acte_by_id ?T ?D 1 = Some a \<and>
      record_validation ?T 1 (validation_code_ccam_final (validation_request False))
        (code_ccam_suggere a) (user_id medecin)
        (justification_or_standard (validation_justification (validation_request False))) =
      Inr (response_transaction_hash ?rv)"
    by blast
  with ga have hv: "record_validation ?T 1 ''HHFA001'' (Some ''HHFA001'') 7
      ''Validation standard'' = Inr ''0xabc''"
    by (simp add: e)
  from ledger_failure_fails_request [where svc = ?T and db = ?D and i = 1 and u = medecin
      and reason = "''doublon''" and ts = "[]" and r = ?rr and a = undefined
      and e = undefined and v = undefined and od = undefined and ov = undefined
      and created = undefined,
      THEN conjunct2, THEN conjunct2, THEN conjunct2, THEN conjunct2, THEN conjunct1] r
  have "record_rejection ?T 1 (user_id medecin) ''doublon'' = Inr (response_transaction_hash ?rr)"
    by blast
  then have hr: "record_rejection ?T 1 7 ''doublon'' = Inr ''0xabc''"
    by (simp add: e)
  from ledger_failure_fails_request [where svc = ?T and db = ?D and i = 1 and u = medecin
      and od = "override_request ''erreur de saisie''" and ts = "[]" and created = ?ov
      and a = undefined and e = undefined and v = undefined and reason = undefined
      and ov = undefined and r = undefined,
      THEN conjunct2, THEN conjunct2, THEN conjunct2, THEN conjunct2, THEN conjunct2] c
  have "\<exists>tx. record_override ?T (override_id ?ov) 1
      (code_ccam_original (override_request ''erreur de saisie''))
      (code_ccam_override (override_request ''erreur de saisie'')) (user_id medecin)
      (justification (override_request ''erreur de saisie'')) = Inr tx"
    by blast
  then have ho: "record_override ?T (override_id ?ov) 1 ''HHFA001'' ''HHFA002'' 7
      ''erreur de saisie'' = Inr ''0xabc''"
    by (simp add: mem_services_def)
  from c ho have o: "\<exists>created. fst (create_override ?T ?D [] 1
        (override_request ''erreur de saisie'') medecin) = Inr created \<and>
      record_override ?T (override_id created) 1 ''HHFA001'' ''HHFA002'' 7
        ''erreur de saisie'' = Inr ''0xabc''"
    by blast
  have pv: "response_transaction_hash (projr (fst (validate_acte ?T ?D [] 1
      (validation_request False) medecin))) = ''0xabc''"
    by (simp add: v)
  have pr: "response_transaction_hash (projr (fst (reject_acte ?T ?D [] 1 ''doublon''
      medecin))) = ''0xabc''"
    by (simp add: r)
  from fv fr fo pv hv pr hr o show ?thesis by (intro conjI) blast+
qed

subsection \<open>Overrides need a justification\<close>

text \<open>
  C9. With \<^verbatim>\<open>OverrideService.create_override\<close> as the specification describes it, a
  request whose justification is empty always fails and creates no override: the
  database and the task queue are returned unchanged. When the guards pass, the failure is
  the service's ValidationError, wrapped by the handler's \<^verbatim>\<open>except\<close> into HTTP 500.
\<close>

theorem empty_justification_creates_no_override:
  assumes "justification od = []"
  shows "(\<exists>e. create_override (mem_services ledger) db ts i od u = (Inl e, db, ts)) \<and>
         (\<forall>a. get_acte_by_id (mem_services ledger) db i = Some a \<and> \<not> access_denied a u \<and>
              statut a \<notin> set [''valide'', ''rejete''] \<longrightarrow>
              create_override (mem_services ledger) db ts i od u =
                (Inl (override_failed ''ValidationError: justification is empty''), db, ts))"
proof -
  have t: "create_override_try (mem_services ledger) db ts i od u =
      (Inl (override_failed ''ValidationError: justification is empty''), db, ts)"
    using assms by (simp add: create_override_try_def mem_services_def mem_create_override_def)
  show ?thesis
    by (cases "get_acte_by_id (mem_services ledger) db i") (simp_all add: create_override_def t)
qed

theorem empty_justification_creates_no_override_witness:
  "justification (override_request []) = [] \<and>
   create_override (mem_services (Inr ''0xabc'')) (db_with (pending_acte (Some 90))) [] 1
       (override_request []) medecin =
     (Inl (override_failed ''ValidationError: justification is empty''),
      db_with (pending_acte (Some 90)), []) \<and>
   overrides (db_with (pending_acte (Some 90))) = []"
proof -
  have j: "justification (override_request []) = []"
    by (simp add: override_request_def)
  have g: "get_acte_by_id (mem_services (Inr ''0xabc'')) (db_with (pending_acte (Some 90))) 1 =
      Some (pending_acte (Some 90))"
    and p: "\<not> access_denied (pending_acte (Some 90)) medecin"
    and s: "statut (pending_acte (Some 90)) \<notin> set [''valide'', ''rejete'']"
    and e: "overrides (db_with (pending_acte (Some 90))) = []"
    by (simp_all add: mem_defs example_defs access_denied_def)
  show ?thesis
    using empty_justification_creates_no_override [OF j, of "Inr ''0xabc''"
        "db_with (pending_acte (Some 90))" "[]" 1 medecin] j g p s e
    by blast
qed


section \<open>Properties of the AI service\<close>

subsection \<open>Parsing the provider's response\<close>

lemma first_index_None: "first_index c s = None \<longleftrightarrow> c \<notin> set s"
  by (induction s) auto

lemma py_find_neg: "py_find s c = - 1 \<longleftrightarrow> c \<notin> set s"
  using first_index_None [of c s] by (cases "first_index c s") (simp_all add: py_find_def)

lemma first_index_less: "first_index c s = Some i \<Longrightarrow> i < length s"
  by (induction s arbitrary: i) (auto split: if_splits)

lemma py_rfind_neg: "py_rfind s c + 1 = 0 \<longleftrightarrow> c \<notin> set s"
proof (cases "first_index c (rev s)")
  case None
  then show ?thesis using first_index_None [of c "rev s"] by (simp add: py_rfind_def)
next
  case (Some i)
  then have "c \<in> set s" using first_index_None [of c "rev s"] by auto
  moreover have "i < length s" using first_index_less [OF Some] by simp
  ultimately show ?thesis using Some by (simp add: py_rfind_def)
qed


lemma first_index_prefix: "first_index c s = Some i \<Longrightarrow> c \<notin> set (take i s)"
proof (induction s arbitrary: i)
  case Nil
  then show ?case by simp
next
  case (Cons x xs)
  show ?case
  proof (cases "x = c")
    case True
    with Cons.prems show ?thesis by simp
  next
    case False
    with Cons.prems obtain j where j: "first_index c xs = Some j" and i: "i = Suc j"
      by auto
    from Cons.IH [OF j] False i show ?thesis by simp
  qed
qed

lemma py_find_outermost:
  "c \<in> set s \<Longrightarrow> c \<notin> set (take (nat (py_find s c)) s)"
  using first_index_None [of c s] first_index_prefix [of c s]
  by (cases "first_index c s") (simp_all add: py_find_def)

lemma py_rfind_outermost:
  assumes "c \<in> set s"
  shows "c \<notin> set (drop (nat (py_rfind s c + 1)) s)"
proof -
  from assms obtain i where i: "first_index c (rev s) = Some i"
    using first_index_None [of c "rev s"] by (cases "first_index c (rev s)") auto
  then have l: "i < length s" using first_index_less [OF i] by simp
  from first_index_prefix [OF i] have "c \<notin> set (drop (length s - i) s)"
    by (simp add: take_rev)
  moreover from i l have "nat (py_rfind s c + 1) = length s - i"
    by (simp add: py_rfind_def)
  ultimately show ?thesis by simp
qed

lemma first_index_append:
  "c \<notin> set pre \<Longrightarrow> first_index c (pre @ c # rest) = Some (length pre)"
  by (induction pre) auto

lemma slice_between:
  assumes "CHR ''{'' \<notin> set pre" and "CHR ''}'' \<notin> set post"
    and "doc = CHR ''{'' # body @ [CHR ''}'']"
  shows "py_slice (pre @ doc @ post) (py_find (pre @ doc @ post) CHR ''{'')
           (py_rfind (pre @ doc @ post) CHR ''}'' + 1) = doc"
proof -
  have f: "py_find (pre @ doc @ post) CHR ''{'' = int (length pre)"
    using first_index_append [OF assms(1), of "body @ [CHR ''}''] @ post"]
    by (simp add: py_find_def assms(3))
  have "set (rev post) = set post" by simp
  with assms(2) have "CHR ''}'' \<notin> set (rev post)" by simp
  from first_index_append [OF this, of "rev body @ [CHR ''{''] @ rev pre"]
  have r: "py_rfind (pre @ doc @ post) CHR ''}'' + 1 = int (length pre + length doc)"
    by (simp add: py_rfind_def assms(3))
  show ?thesis unfolding f r by (simp add: py_slice_def)
qed

lemma parse_llm_response_between:
  assumes "CHR ''{'' \<notin> set pre" and "CHR ''}'' \<notin> set post"
    and "doc = CHR ''{'' # body @ [CHR ''}'']"
  shows "parse_llm_response loads (pre @ doc @ post) = loads doc"
proof -
  have f: "py_find (pre @ doc @ post) CHR ''{'' = int (length pre)"
    using first_index_append [OF assms(1), of "body @ [CHR ''}''] @ post"]
    by (simp add: py_find_def assms(3))
  have "set (rev post) = set post" by simp
  with assms(2) have "CHR ''}'' \<notin> set (rev post)" by simp
  from first_index_append [OF this, of "rev body @ [CHR ''{''] @ rev pre"]
  have r: "py_rfind (pre @ doc @ post) CHR ''}'' + 1 = int (length pre + length doc)"
    by (simp add: py_rfind_def assms(3))
  have s: "py_slice (pre @ doc @ post) (int (length pre)) (int (length pre + length doc)) = doc"
    by (simp add: py_slice_def)
  have nz: "int (length pre + length doc) \<noteq> 0"
    by (simp add: assms(3))
  have nf: "int (length pre) \<noteq> - 1" by simp
  show ?thesis
    unfolding parse_llm_response_def Let_def f r using s nz nf by simp
qed

lemma parse_llm_response_outcome:
  "(CHR ''{'' \<notin> set response \<or> CHR ''}'' \<notin> set response \<longrightarrow>
      (\<exists>msg. parse_llm_response loads response = Inl (ValueError msg))) \<and>
   (CHR ''{'' \<in> set response \<and> CHR ''}'' \<in> set response \<longrightarrow>
      parse_llm_response loads response =
        loads (py_slice response (py_find response CHR ''{'') (py_rfind response CHR ''}'' + 1)) \<and>
      CHR ''{'' \<notin> set (take (nat (py_find response CHR ''{'')) response) \<and>
      CHR ''}'' \<notin> set (drop (nat (py_rfind response CHR ''}'' + 1)) response)) \<and>
   (parse_llm_response loads response = Inr v \<longrightarrow>
      CHR ''{'' \<in> set response \<and> CHR ''}'' \<in> set response \<and>
      loads (py_slice response (py_find response CHR ''{'') (py_rfind response CHR ''}'' + 1)) = Inr v)"
  by (auto simp: parse_llm_response_def Let_def py_find_neg py_rfind_neg py_find_outermost
      py_rfind_outermost)

subsection \<open>The cache key\<close>







lemma injective_hash_never_collides:
  assumes "inj (py_hash env)" and "inj (\<lambda>n. py_str env (PInt n))"
    and "py_str env (PInt (py_hash env x)) = py_str env (PInt (py_hash env y))"
  shows "x = y"
  using assms by (auto dest!: injD)




subsection \<open>Confidence adjustment\<close>

lemma and_then_Inr: "and_then m f = Inr y \<longleftrightarrow> (\<exists>x. m = Inr x \<and> f x = Inr y)"
  by (cases m) simp_all

lemma py_mapping_Inr: "py_mapping x = Inr d \<longleftrightarrow> x = PDict d"
  by (cases x) auto

lemma adjust_score_num:
  assumes "num_value score = Some s"
  shows "\<exists>v. adjust_score b score = Inr v \<and>
             num_value v = Some (if b then min (s + 5) 100 else max (s - 10) 0)"
  using assms
  by (cases score) (auto simp: adjust_score_def py_min_def py_max_def min_def max_def)

lemma enrich_suggestion_score:
  assumes "enrich_suggestion re info sug = Inr out"
  shows "\<exists>code rv is_valid score adjusted.
           py_getitem sug ''code'' = Inr code \<and> re code info = Inr rv \<and>
           py_get rv ''is_valid'' (PBool True) = Inr is_valid \<and>
           py_getitem sug ''score_confiance'' = Inr score \<and>
           adjust_score (py_truthy is_valid) score = Inr adjusted \<and>
           py_getitem out ''score_confiance'' = Inr adjusted"
proof -
  from assms obtain code rv d is_valid score adjusted where
    c: "py_getitem sug ''code'' = Inr code" and r: "re code info = Inr rv" and
    m: "py_mapping sug = Inr d" and v: "py_get rv ''is_valid'' (PBool True) = Inr is_valid" and
    s: "py_getitem (PDict (AList.update ''extracted_info'' info
          (AList.update ''rule_validation'' rv d))) ''score_confiance'' = Inr score" and
    a: "adjust_score (py_truthy is_valid) score = Inr adjusted" and
    o: "out = PDict (AList.update ''score_confiance'' adjusted
          (AList.update ''extracted_info'' info (AList.update ''rule_validation'' rv d)))"
    unfolding enrich_suggestion_def and_then_Inr by blast
  from m have sug: "sug = PDict d" by (simp add: py_mapping_Inr)
  from s have "py_getitem sug ''score_confiance'' = Inr score"
    by (simp add: sug update_conv' split: option.splits)
  moreover have "py_getitem out ''score_confiance'' = Inr adjusted"
    by (simp add: o update_conv')
  ultimately show ?thesis using c r v a by blast
qed

lemma enrich_all_nth:
  "enrich_all re info items = Inr outs \<Longrightarrow>
     length outs = length items \<and>
     (\<forall>i<length items. enrich_suggestion re info (items ! i) = Inr (outs ! i))"
proof (induction items arbitrary: outs)
  case Nil
  then show ?case by simp
next
  case (Cons x xs)
  from Cons.prems obtain e es where e: "enrich_suggestion re info x = Inr e"
    and es: "enrich_all re info xs = Inr es" and o: "outs = e # es"
    by (auto simp: and_then_Inr)
  from Cons.IH [OF es] e o show ?case
    by (auto simp: nth_Cons split: nat.splits)
qed

lemma enrich_suggestions_completed:
  assumes "py_get parsed ''suggestions'' (PList []) = Inr suggestions"
    and "py_iter suggestions = Inr items"
    and "enrich_all re info items = Inr outs"
  shows "py_getitem (enrich_suggestions re parsed info) ''suggestions'' = Inr (PList outs)"
proof -
  from assms(1) obtain d where "parsed = PDict d" by (cases parsed) auto
  with assms show ?thesis by (simp add: enrich_suggestions_def)
qed

lemma enrich_suggestions_abandoned:
  assumes "py_get parsed ''suggestions'' (PList []) = Inr suggestions"
    and "py_iter suggestions = Inr items"
    and "enrich_all re info items = Inl e"
  shows "enrich_suggestions re parsed info = parsed"
  using assms by (simp add: enrich_suggestions_def)


text \<open>
  C5, as amended. When the loop of \<^verbatim>\<open>_enrich_suggestions\<close> completes, every candidate
  with a numeric base score \<open>s\<close> leaves it with the score \<open>min (s + 5) 100\<close> if the rule
  check is valid (\<^verbatim>\<open>is_valid\<close> truthy or absent) and \<open>max (s - 10) 0\<close> otherwise, and the
  returned dictionary holds these candidates; for a base score between 0 and 100 the
  adjusted score is between 0 and 100. When a candidate raises, the parsed response is
  returned as it came.
\<close>

theorem enrichment_adjusts_confidence:
  "(enrich_all rule_engine info items = Inr outs \<and> i < length items \<and>
      py_getitem (items ! i) ''score_confiance'' = Inr score \<and> num_value score = Some s \<longrightarrow>
      (\<exists>code rv is_valid adjusted.
          py_getitem (items ! i) ''code'' = Inr code \<and> rule_engine code info = Inr rv \<and>
          py_get rv ''is_valid'' (PBool True) = Inr is_valid \<and>
          py_getitem (outs ! i) ''score_confiance'' = Inr adjusted \<and>
          num_value adjusted =
            Some (if py_truthy is_valid then min (s + 5) 100 else max (s - 10) 0) \<and>
          (0 \<le> s \<and> s \<le> 100 \<longrightarrow>
             (\<exists>r. num_value adjusted = Some r \<and> 0 \<le> r \<and> r \<le> 100)))) \<and>
   (py_get parsed ''suggestions'' (PList []) = Inr suggestions \<and>
      py_iter suggestions = Inr items \<and> enrich_all rule_engine info items = Inr outs \<longrightarrow>
      py_getitem (enrich_suggestions rule_engine parsed info) ''suggestions'' = Inr (PList outs)) \<and>
   (py_get parsed ''suggestions'' (PList []) = Inr suggestions \<and>
      py_iter suggestions = Inr items \<and> enrich_all rule_engine info items = Inl e \<longrightarrow>
      enrich_suggestions rule_engine parsed info = parsed)"
proof (intro conjI impI)
  assume h: "enrich_all rule_engine info items = Inr outs \<and> i < length items \<and>
      py_getitem (items ! i) ''score_confiance'' = Inr score \<and> num_value score = Some s"
  then have "enrich_suggestion rule_engine info (items ! i) = Inr (outs ! i)"
    using enrich_all_nth by blast
  from enrich_suggestion_score [OF this] obtain code rv is_valid score' adjusted where
    c: "py_getitem (items ! i) ''code'' = Inr code" and r: "rule_engine code info = Inr rv" and
    v: "py_get rv ''is_valid'' (PBool True) = Inr is_valid" and
    s': "py_getitem (items ! i) ''score_confiance'' = Inr score'" and
    a: "adjust_score (py_truthy is_valid) score' = Inr adjusted" and
    o: "py_getitem (outs ! i) ''score_confiance'' = Inr adjusted"
    by blast
  from s' h have "score' = score" by simp
  with a adjust_score_num [of score s "py_truthy is_valid"] h
  have n: "num_value adjusted =
      Some (if py_truthy is_valid then min (s + 5) 100 else max (s - 10) 0)"
    by auto
  have b: "0 \<le> s \<and> s \<le> 100 \<longrightarrow> (\<exists>r. num_value adjusted = Some r \<and> 0 \<le> r \<and> r \<le> 100)"
    using n by (auto simp: min_def max_def)
  show "\<exists>code rv is_valid adjusted.
          py_getitem (items ! i) ''code'' = Inr code \<and> rule_engine code info = Inr rv \<and>
          py_get rv ''is_valid'' (PBool True) = Inr is_valid \<and>
          py_getitem (outs ! i) ''score_confiance'' = Inr adjusted \<and>
          num_value adjusted =
            Some (if py_truthy is_valid then min (s + 5) 100 else max (s - 10) 0) \<and>
          (0 \<le> s \<and> s \<le> 100 \<longrightarrow>
             (\<exists>r. num_value adjusted = Some r \<and> 0 \<le> r \<and> r \<le> 100))"
    using c r v o n b by blast
next
  assume "py_get parsed ''suggestions'' (PList []) = Inr suggestions \<and>
      py_iter suggestions = Inr items \<and> enrich_all rule_engine info items = Inr outs"
  then show "py_getitem (enrich_suggestions rule_engine parsed info) ''suggestions'' =
      Inr (PList outs)"
    using enrich_suggestions_completed by blast
next
  assume "py_get parsed ''suggestions'' (PList []) = Inr suggestions \<and>
      py_iter suggestions = Inr items \<and> enrich_all rule_engine info items = Inl e"
  then show "enrich_suggestions rule_engine parsed info = parsed"
    using enrich_suggestions_abandoned by blast
qed


text \<open>
  The claim as stated fails: a valid candidate with base score -20 leaves with -15, an
  invalid one with base score 150 leaves with 140, and a candidate with score 90 that
  stands beside a candidate without a code keeps 90 although its rule check is valid.
\<close>

theorem enrichment_leaves_range_or_is_abandoned:
  "py_getitem (enrich_suggestions (verdict True) (candidates [candidate (PInt (- 20))]) (PDict []))
       ''suggestions'' =
     Inr (PList [enriched_candidate (PInt (- 15)) True]) \<and>
   num_value (PInt (- 15)) = Some (- 15) \<and>
   py_getitem (enrich_suggestions (verdict False) (candidates [candidate (PInt 150)]) (PDict []))
       ''suggestions'' =
     Inr (PList [enriched_candidate (PInt 140) False]) \<and>
   enrich_suggestions (verdict True)
       (candidates [candidate (PInt 90), PDict [(''score_confiance'', PInt 80)]]) (PDict []) =
     candidates [candidate (PInt 90), PDict [(''score_confiance'', PInt 80)]]"
  by code_simp


theorem enrichment_adjusts_confidence_witness:
  "enrich_all (verdict True) (PDict []) [candidate (PInt 90), candidate (PFloat 98.5)] =
     Inr [enriched_candidate (PInt 95) True, enriched_candidate (PInt 100) True] \<and>
   (\<exists>adjusted.
      py_getitem ([enriched_candidate (PInt 95) True, enriched_candidate (PInt 100) True] ! 0)
        ''score_confiance'' = Inr adjusted \<and>
      num_value adjusted = Some 95) \<and>
   py_getitem (enrich_suggestions (verdict True)
        (candidates [candidate (PInt 90), candidate (PFloat 98.5)]) (PDict [])) ''suggestions'' =
     Inr (PList [enriched_candidate (PInt 95) True, enriched_candidate (PInt 100) True]) \<and>
   enrich_all (verdict True) (PDict []) [candidate (PInt 90), PDict []] = Inl (KeyError ''code'') \<and>
   enrich_suggestions (verdict True) (candidates [candidate (PInt 90), PDict []]) (PDict []) =
     candidates [candidate (PInt 90), PDict []]"
proof -
  let ?items = "[candidate (PInt 90), candidate (PFloat 98.5)]"
  let ?outs = "[enriched_candidate (PInt 95) True, enriched_candidate (PInt 100) True]"
  let ?bad = "[candidate (PInt 90), PDict []]"
  have a: "enrich_all (verdict True) (PDict []) ?items = Inr ?outs"
    by (simp add: candidate_def enriched_candidate_def verdict_def enrich_suggestion_def
        adjust_score_def py_min_def dict_get_def)
  have i: "(0::nat) < length ?items" by simp
  have g: "py_getitem (?items ! 0) ''score_confiance'' = Inr (PInt 90)"
    by (simp add: candidate_def)
  have n: "num_value (PInt 90) = Some 90" by simp
  have p: "py_get (candidates ?items) ''suggestions'' (PList []) = Inr (PList ?items)"
    and q: "py_get (candidates ?bad) ''suggestions'' (PList []) = Inr (PList ?bad)"
    by (simp_all add: candidates_def dict_get_def)
  have t: "py_iter (PList ?items) = Inr ?items" and u: "py_iter (PList ?bad) = Inr ?bad"
    by simp_all
  have b: "enrich_all (verdict True) (PDict []) ?bad = Inl (KeyError ''code'')"
    by (simp add: candidate_def enriched_candidate_def verdict_def enrich_suggestion_def
        adjust_score_def py_min_def dict_get_def)
  have v: "py_truthy is_valid"
    if "verdict True code (PDict []) = Inr rv" "py_get rv ''is_valid'' (PBool True) = Inr is_valid"
    for code rv is_valid
    using that by (auto simp: verdict_def dict_get_def)
  from enrichment_adjusts_confidence [of "verdict True" "PDict []" ?items ?outs 0 "PInt 90" 90
      "candidates ?items" "PList ?items" undefined] a i g n p t
  have 1: "\<exists>adjusted.
      py_getitem (?outs ! 0) ''score_confiance'' = Inr adjusted \<and> num_value adjusted = Some 95"
    and 2: "py_getitem (enrich_suggestions (verdict True) (candidates ?items) (PDict []))
      ''suggestions'' = Inr (PList ?outs)"
    using v by (fastforce, blast)
  from enrichment_adjusts_confidence [of "verdict True" "PDict []" ?bad undefined 0 undefined 0
      "candidates ?bad" "PList ?bad" "KeyError ''code''"] b q u
  have 3: "enrich_suggestions (verdict True) (candidates ?bad) (PDict []) = candidates ?bad"
    by blast
  show ?thesis using a b 1 2 3 by blast
qed

subsection \<open>Cache hits\<close>

lemma create_cache_key_prefix:
  "create_cache_key env a = Inr k \<Longrightarrow> \<exists>x. k = ''ccam_suggestion:'' @ x"
  by (auto simp: create_cache_key_def and_then_Inr)

lemma cache_get_set:
  "cache_get (cache_set c now k v ttl) t k' =
     (if k' = k then (if t < now + ttl then Some v else None) else cache_get c t k')"
  by (simp add: cache_get_def cache_set_def)

lemma record_metrics_cache:
  "k = ''ccam_suggestion:'' @ x \<Longrightarrow>
     cache_get (cache (record_metrics env now st a r)) t k = cache_get (cache st) t k"
  by (simp add: record_metrics_def cache_get_set split: sum.splits)

lemma generate_fresh_stores:
  assumes "generate_fresh env now st a k = (Inr r, st')" and "k = ''ccam_suggestion:'' @ x"
    and "t < now + 3600"
  shows "cache_get (cache st') t k = Some r"
  using assms
  by (auto simp: generate_fresh_def record_metrics_cache cache_get_set
      split: prod.splits sum.splits)


text \<open>
  C6. Without \<^verbatim>\<open>force_regenerate\<close>, when the cache holds an unexpired (and, as every
  stored response, truthy) entry under the act's cache key, \<^verbatim>\<open>generate_suggestions\<close>
  returns the response built from that entry and leaves the state as it was: no prompt is
  sent to the provider and nothing is written. And a request that went to the provider and
  returned a response has stored it under the key for 3600 seconds.
\<close>

theorem cached_result_returned_without_provider_call:
  "(create_cache_key env acte_data = Inr k \<and> cache st k = Some (v, expires) \<and>
      now < expires \<and> py_truthy v \<longrightarrow>
      generate_suggestions env now st acte_data False = (validate_response env v, st)) \<and>
   (create_cache_key env acte_data = Inr k \<and>
      (force_regenerate \<or> cache_get (cache st) now k = None) \<and>
      generate_suggestions env now st acte_data force_regenerate = (Inr r, st') \<and>
      t < now + 3600 \<longrightarrow>
      cache_get (cache st') t k = Some r)"
proof (intro conjI impI)
  assume "create_cache_key env acte_data = Inr k \<and> cache st k = Some (v, expires) \<and>
      now < expires \<and> py_truthy v"
  then show "generate_suggestions env now st acte_data False = (validate_response env v, st)"
    by (simp add: generate_suggestions_def cache_get_def)
next
  assume h: "create_cache_key env acte_data = Inr k \<and>
      (force_regenerate \<or> cache_get (cache st) now k = None) \<and>
      generate_suggestions env now st acte_data force_regenerate = (Inr r, st') \<and>
      t < now + 3600"
  then obtain x where x: "k = ''ccam_suggestion:'' @ x"
    using create_cache_key_prefix by blast
  from h have "generate_fresh env now st acte_data k = (Inr r, st')"
    by (cases force_regenerate) (auto simp: generate_suggestions_def)
  from generate_fresh_stores [OF this x] h show "cache_get (cache st') t k = Some r"
    by blast
qed


lemma example_key:
  "create_cache_key example_provider example_acte_data = Inr ''ccam_suggestion:36''"
  by code_simp

lemma example_extract:
  "extract_clinical_info example_provider st example_acte_data =
     (PDict [], st\<lparr>llm_calls := llm_calls st @ [''extraction'']\<rparr>)"
  by (simp add: extract_clinical_info_def call_llm_def example_provider_def example_env_def)

lemma example_prompt: "main_prompt example_provider example_acte_data = Inr ''main_suggestion''"
  by (simp add: main_prompt_def example_provider_def example_env_def example_acte_data_def
      dict_get_def py_join_def)

lemma example_parse0:
  "parse_llm_response example_loads example_answer = Inr example_document"
proof -
  have "parse_llm_response example_loads (''Voici: '' @ example_json @ '' fin'') =
      example_loads example_json"
    by (rule parse_llm_response_between [where body = example_json_body])
       (simp_all add: example_json_def)
  then show ?thesis
    by (simp add: example_answer_def example_loads_def)
qed

lemma example_parse:
  "parse_llm_response (json_loads example_provider) example_answer = Inr example_document"
  using example_parse0 by (simp add: example_provider_def example_env_def)

lemma example_enrich:
  "build_response example_provider
     (enrich_suggestions (validate_code example_provider) example_document (PDict [])) =
   Inr example_response"
  by code_simp

lemma example_record_metrics:
  "record_metrics example_provider now st example_acte_data example_response =
     st\<lparr>cache := cache_set (cache st) now ''metrics:A-1'' example_metrics 86400\<rparr>"
  by (simp add: record_metrics_def example_response_def example_metrics_def example_provider_def
      example_env_def example_acte_data_def dict_get_def)

lemma example_llm:
  "llm example_provider ''main_suggestion'' = Inr example_answer"
  by (simp add: example_provider_def example_env_def)

lemma example_fresh:
  "generate_fresh example_provider 1000 empty_state example_acte_data ''ccam_suggestion:36'' =
     (Inr example_response, after_first_request)"
  by (simp add: generate_fresh_def example_extract example_prompt call_llm_def example_llm example_parse
      example_enrich example_record_metrics after_first_request_def empty_state_def)


lemma empty_state_miss: "cache_get (cache empty_state) now k = None"
  by (simp add: empty_state_def cache_get_def)

lemma example_first_request:
  "generate_suggestions example_provider 1000 empty_state example_acte_data False =
     (Inr example_response, after_first_request)"
  by (simp add: generate_suggestions_def example_key example_fresh empty_state_miss)

lemma example_cached:
  "cache after_first_request ''ccam_suggestion:36'' = Some (example_response, 4600)"
  by (simp add: after_first_request_def cache_set_def)

theorem cached_result_returned_without_provider_call_witness:
  "create_cache_key example_provider example_acte_data = Inr ''ccam_suggestion:36'' \<and>
   cache_get (cache empty_state) 1000 ''ccam_suggestion:36'' = None \<and>
   generate_suggestions example_provider 1000 empty_state example_acte_data False =
     (Inr example_response, after_first_request) \<and>
   llm_calls after_first_request = [''extraction'', ''main_suggestion''] \<and>
   cache_get (cache after_first_request) 2000 ''ccam_suggestion:36'' = Some example_response \<and>
   generate_suggestions example_provider 2000 after_first_request example_acte_data False =
     (Inr example_response, after_first_request)"
proof -
  have m: "cache_get (cache empty_state) 1000 ''ccam_suggestion:36'' = None"
    by (simp add: empty_state_def cache_get_def)
  have t: "py_truthy example_response"
    by (simp add: example_response_def)
  have v: "validate_response example_provider example_response = Inr example_response"
    by (simp add: example_provider_def example_env_def)
  have c: "llm_calls after_first_request = [''extraction'', ''main_suggestion'']"
    by (simp add: after_first_request_def)
  have l: "(2000::nat) < 1000 + 3600" "(2000::nat) < 4600" by simp_all
  from cached_result_returned_without_provider_call [where env = example_provider
      and acte_data = example_acte_data and k = "''ccam_suggestion:36''" and st = empty_state
      and now = 1000 and force_regenerate = False and r = example_response
      and st' = after_first_request and t = 2000] example_key example_first_request m l(1)
  have 1: "cache_get (cache after_first_request) 2000 ''ccam_suggestion:36'' = Some example_response"
    by blast
  from cached_result_returned_without_provider_call [where env = example_provider
      and acte_data = example_acte_data and k = "''ccam_suggestion:36''"
      and st = after_first_request and v = example_response and expires = 4600
      and now = 2000] example_key example_cached t l(2)
  have "generate_suggestions example_provider 2000 after_first_request example_acte_data False =
     (validate_response example_provider example_response, after_first_request)"
    by blast
  then have 2: "generate_suggestions example_provider 2000 after_first_request example_acte_data
      False = (Inr example_response, after_first_request)"
    by (simp only: v)
  from example_key m example_first_request c 1 2 show ?thesis by (intro conjI)
qed

subsection \<open>Unparseable answers\<close>

lemma extract_clinical_info_cache:
  "cache (snd (extract_clinical_info env st acte_data)) = cache st"
  by (simp add: extract_clinical_info_def call_llm_def split: sum.splits prod.splits)

lemma extract_clinical_info_swallows:
  assumes "format_prompt env ''extraction''
      [(''texte_clinique'', dict_get acte_data ''description_clinique'' (PStr []))] = Inr p"
    and "llm env p = Inr x"
    and "parse_llm_response (json_loads env) x = Inl e"
  shows "extract_clinical_info env st acte_data = (PDict [], st\<lparr>llm_calls := llm_calls st @ [p]\<rparr>)"
  using assms by (simp add: extract_clinical_info_def call_llm_def)

lemma generate_fresh_unparseable:
  assumes "main_prompt env acte_data = Inr prompt" and "llm env prompt = Inr answer"
    and "parse_llm_response (json_loads env) answer = Inl e"
  shows "fst (generate_fresh env now st acte_data k) = Inl e \<and>
         cache (snd (generate_fresh env now st acte_data k)) = cache st"
proof (cases "extract_clinical_info env st acte_data")
  case (Pair info st1)
  then have "cache st1 = cache st"
    using extract_clinical_info_cache [of env st acte_data] by simp
  with Pair assms show ?thesis
    by (simp add: generate_fresh_def call_llm_def)
qed

lemma generate_fresh_parsed:
  assumes "main_prompt env acte_data = Inr prompt" and "llm env prompt = Inr answer"
    and "fst (generate_fresh env now st acte_data k) = Inr r"
  shows "\<exists>parsed. parse_llm_response (json_loads env) answer = Inr parsed"
proof (cases "parse_llm_response (json_loads env) answer")
  case (Inl e)
  from generate_fresh_unparseable [OF assms(1,2) Inl, of now st k] assms(3)
  show ?thesis by simp
next
  case (Inr parsed)
  then show ?thesis by blast
qed

lemma generate_suggestions_fresh:
  assumes "create_cache_key env acte_data = Inr k"
    and "force_regenerate \<or> cache_get (cache st) now k = None"
  shows "generate_suggestions env now st acte_data force_regenerate =
           generate_fresh env now st acte_data k"
  using assms by (cases force_regenerate) (simp_all add: generate_suggestions_def)

text \<open>
  C7, as amended. \<^verbatim>\<open>generate_suggestions\<close> parses the provider's answer to the main
  prompt by one candidate, the text from its first \<^verbatim>\<open>{\<close> to its last \<^verbatim>\<open>}\<close>. On a
  cache miss or a forced regeneration, once the main prompt is built and the provider has
  answered it: an answer without an opening or without a closing brace fails the request
  with \<^verbatim>\<open>ValueError\<close>, and a candidate that the decoder rejects fails the request with
  the decoder's error; in both cases nothing is cached. A request that succeeds had both
  braces in the main answer, no opening brace before the candidate, no closing brace after
  it, and a candidate that the decoder accepted. The answer to the extraction prompt is
  treated differently: when it cannot be parsed, the extracted information is the empty
  dictionary.
\<close>

theorem unparseable_main_answer_fails_request:
  assumes "create_cache_key env acte_data = Inr k"
    and "force_regenerate \<or> cache_get (cache st) now k = None"
    and "main_prompt env acte_data = Inr prompt"
    and "llm env prompt = Inr answer"
  shows
   "(CHR ''{'' \<notin> set answer \<or> CHR ''}'' \<notin> set answer \<longrightarrow>
       (\<exists>msg. fst (generate_suggestions env now st acte_data force_regenerate) =
          Inl (ValueError msg)) \<and>
       cache (snd (generate_suggestions env now st acte_data force_regenerate)) = cache st) \<and>
    (CHR ''{'' \<in> set answer \<and> CHR ''}'' \<in> set answer \<and>
       json_loads env
         (py_slice answer (py_find answer CHR ''{'') (py_rfind answer CHR ''}'' + 1)) = Inl e \<longrightarrow>
       fst (generate_suggestions env now st acte_data force_regenerate) = Inl e \<and>
       cache (snd (generate_suggestions env now st acte_data force_regenerate)) = cache st) \<and>
    (fst (generate_suggestions env now st acte_data force_regenerate) = Inr r \<longrightarrow>
       CHR ''{'' \<in> set answer \<and> CHR ''}'' \<in> set answer \<and>
       CHR ''{'' \<notin> set (take (nat (py_find answer CHR ''{'')) answer) \<and>
       CHR ''}'' \<notin> set (drop (nat (py_rfind answer CHR ''}'' + 1)) answer) \<and>
       (\<exists>parsed. json_loads env
          (py_slice answer (py_find answer CHR ''{'') (py_rfind answer CHR ''}'' + 1)) =
            Inr parsed)) \<and>
    (format_prompt env ''extraction''
         [(''texte_clinique'', dict_get acte_data ''description_clinique'' (PStr []))] = Inr p \<and>
       llm env p = Inr x \<and> parse_llm_response (json_loads env) x = Inl e' \<longrightarrow>
       fst (extract_clinical_info env st acte_data) = PDict [])"
proof -
  let ?G = "generate_suggestions env now st acte_data force_regenerate"
  have g: "?G = generate_fresh env now st acte_data k"
    using assms(1,2) by (rule generate_suggestions_fresh)
  have 1: "(\<exists>msg. fst ?G = Inl (ValueError msg)) \<and> cache (snd ?G) = cache st"
    if "CHR ''{'' \<notin> set answer \<or> CHR ''}'' \<notin> set answer"
  proof -
    from that obtain msg where "parse_llm_response (json_loads env) answer = Inl (ValueError msg)"
      using parse_llm_response_outcome [of answer "json_loads env"] by blast
    from generate_fresh_unparseable [OF assms(3,4) this, of now st k] show ?thesis
      unfolding g by blast
  qed
  have 2: "fst ?G = Inl e \<and> cache (snd ?G) = cache st"
    if "CHR ''{'' \<in> set answer \<and> CHR ''}'' \<in> set answer \<and>
       json_loads env
         (py_slice answer (py_find answer CHR ''{'') (py_rfind answer CHR ''}'' + 1)) = Inl e"
  proof -
    from that have "parse_llm_response (json_loads env) answer = Inl e"
      using parse_llm_response_outcome [of answer "json_loads env", THEN conjunct2, THEN conjunct1]
      by presburger
    from generate_fresh_unparseable [OF assms(3,4) this, of now st k] show ?thesis
      unfolding g .
  qed
  have 3: "CHR ''{'' \<in> set answer \<and> CHR ''}'' \<in> set answer \<and>
       CHR ''{'' \<notin> set (take (nat (py_find answer CHR ''{'')) answer) \<and>
       CHR ''}'' \<notin> set (drop (nat (py_rfind answer CHR ''}'' + 1)) answer) \<and>
       (\<exists>parsed. json_loads env
          (py_slice answer (py_find answer CHR ''{'') (py_rfind answer CHR ''}'' + 1)) =
            Inr parsed)"
    if "fst ?G = Inr r"
  proof -
    from that have "fst (generate_fresh env now st acte_data k) = Inr r" by (simp add: g)
    from generate_fresh_parsed [OF assms(3,4) this]
    obtain parsed where "parse_llm_response (json_loads env) answer = Inr parsed" ..
    then have a: "CHR ''{'' \<in> set answer \<and> CHR ''}'' \<in> set answer \<and>
        json_loads env
          (py_slice answer (py_find answer CHR ''{'') (py_rfind answer CHR ''}'' + 1)) = Inr parsed"
      using parse_llm_response_outcome [of answer "json_loads env" parsed,
          THEN conjunct2, THEN conjunct2] by blast
    then have b: "CHR ''{'' \<notin> set (take (nat (py_find answer CHR ''{'')) answer) \<and>
        CHR ''}'' \<notin> set (drop (nat (py_rfind answer CHR ''}'' + 1)) answer)"
      using parse_llm_response_outcome [of answer "json_loads env",
          THEN conjunct2, THEN conjunct1] by blast
    from a b show ?thesis by blast
  qed
  have 4: "fst (extract_clinical_info env st acte_data) = PDict []"
    if "format_prompt env ''extraction''
         [(''texte_clinique'', dict_get acte_data ''description_clinique'' (PStr []))] = Inr p \<and>
       llm env p = Inr x \<and> parse_llm_response (json_loads env) x = Inl e'"
    using that extract_clinical_info_swallows [of env acte_data p x e' st] by simp
  from 1 2 3 4 show ?thesis by (intro conjI impI) blast+
qed

lemma no_object_in_refusal:
  "CHR ''{'' \<notin> set ''pas de json''"
  by simp

lemma provider_variant_key:
  "create_cache_key (example_provider\<lparr>llm := f\<rparr>) example_acte_data =
     Inr ''ccam_suggestion:36''"
  using example_key by (simp add: create_cache_key_def)

lemma provider_variant_prompt:
  "main_prompt (example_provider\<lparr>llm := f\<rparr>) example_acte_data = Inr ''main_suggestion''"
  using example_prompt by (simp add: main_prompt_def)

lemma refusal_unparseable:
  "\<exists>msg. parse_llm_response loads ''pas de json'' = Inl (ValueError msg)"
  using parse_llm_response_outcome [of "''pas de json''" loads] by simp

lemma chatty_extract:
  "extract_clinical_info chatty_provider st example_acte_data =
     (PDict [], st\<lparr>llm_calls := llm_calls st @ [''extraction'']\<rparr>)"
proof -
  obtain msg where "parse_llm_response example_loads ''pas de json'' = Inl (ValueError msg)"
    using refusal_unparseable by blast
  then show ?thesis
    by (simp add: extract_clinical_info_def call_llm_def chatty_provider_def
        example_provider_def example_env_def)
qed

lemma chatty_enrich:
  "build_response chatty_provider
     (enrich_suggestions (validate_code chatty_provider) example_document (PDict [])) =
   Inr example_response"
  by code_simp

lemma chatty_record_metrics:
  "record_metrics chatty_provider now st example_acte_data example_response =
     st\<lparr>cache := cache_set (cache st) now ''metrics:A-1'' example_metrics 86400\<rparr>"
  by (simp add: record_metrics_def example_response_def example_metrics_def chatty_provider_def
      example_provider_def example_env_def example_acte_data_def dict_get_def)

lemma chatty_fresh:
  "generate_fresh chatty_provider 1000 empty_state example_acte_data ''ccam_suggestion:36'' =
     (Inr example_response, after_first_request)"
proof -
  have p: "main_prompt chatty_provider example_acte_data = Inr ''main_suggestion''"
    by (simp add: chatty_provider_def provider_variant_prompt)
  have l: "llm chatty_provider ''main_suggestion'' = Inr example_answer"
    by (simp add: chatty_provider_def)
  have j: "parse_llm_response (json_loads chatty_provider) example_answer = Inr example_document"
    using example_parse0 by (simp add: chatty_provider_def example_provider_def example_env_def)
  show ?thesis
    by (simp add: generate_fresh_def chatty_extract p call_llm_def l j chatty_enrich
        chatty_record_metrics after_first_request_def empty_state_def)
qed

text \<open>
  The claim as stated fails: the provider's answer to the extraction prompt holds no
  object, and the request succeeds.
\<close>

theorem unparseable_extraction_answer_is_swallowed:
  "llm chatty_provider ''extraction'' = Inr ''pas de json'' \<and>
   CHR ''{'' \<notin> set ''pas de json'' \<and>
   parse_llm_response (json_loads chatty_provider) ''pas de json'' =
     Inl (ValueError (''Aucun JSON trouv'' @ [CHR 0xE9] @ '' dans la r'' @ [CHR 0xE9] @
       ''ponse'')) \<and>
   generate_suggestions chatty_provider 1000 empty_state example_acte_data False =
     (Inr example_response, after_first_request) \<and>
   llm_calls after_first_request = [''extraction'', ''main_suggestion'']"
proof -
  have 1: "llm chatty_provider ''extraction'' = Inr ''pas de json''"
    by (simp add: chatty_provider_def)
  have k: "create_cache_key chatty_provider example_acte_data = Inr ''ccam_suggestion:36''"
    by (simp add: chatty_provider_def provider_variant_key)
  have 2: "generate_suggestions chatty_provider 1000 empty_state example_acte_data False =
     (Inr example_response, after_first_request)"
    by (simp add: generate_suggestions_def k chatty_fresh empty_state_miss)
  have 3: "llm_calls after_first_request = [''extraction'', ''main_suggestion'']"
    by (simp add: after_first_request_def)
  have 4: "parse_llm_response (json_loads chatty_provider) ''pas de json'' =
     Inl (ValueError (''Aucun JSON trouv'' @ [CHR 0xE9] @ '' dans la r'' @ [CHR 0xE9] @
       ''ponse''))"
    by (simp add: parse_llm_response_def py_find_def)
  from 1 no_object_in_refusal 4 2 3 show ?thesis by (intro conjI)
qed

lemma two_objects_slice:
  "CHR ''{'' \<in> set two_objects \<and> CHR ''}'' \<in> set two_objects \<and>
   py_slice two_objects (py_find two_objects CHR ''{'') (py_rfind two_objects CHR ''}'' + 1) =
     two_objects"
proof -
  have d: "two_objects =
      CHR ''{'' # (example_json_body @ ''} {'' @ example_json_body) @ [CHR ''}'']"
    by (simp add: two_objects_def example_json_def)
  from slice_between [of "[]" "[]" two_objects, OF _ _ d]
  have "py_slice two_objects (py_find two_objects CHR ''{'') (py_rfind two_objects CHR ''}'' + 1) =
     two_objects" by simp
  moreover have "CHR ''{'' \<in> set two_objects" "CHR ''}'' \<in> set two_objects"
    by (simp_all add: d)
  ultimately show ?thesis by blast
qed

lemma two_objects_rejected: "example_loads two_objects = Inl JSONDecodeError"
  by (simp add: example_loads_def two_objects_def)

theorem unparseable_main_answer_fails_request_witness:
  "(create_cache_key objectless_provider example_acte_data = Inr ''ccam_suggestion:36'' \<and>
    cache_get (cache empty_state) 1000 ''ccam_suggestion:36'' = None \<and>
    main_prompt objectless_provider example_acte_data = Inr ''main_suggestion'' \<and>
    llm objectless_provider ''main_suggestion'' = Inr ''pas de json'' \<and>
    CHR ''{'' \<notin> set ''pas de json'' \<and>
    (\<exists>msg. fst (generate_suggestions objectless_provider 1000 empty_state example_acte_data
       False) = Inl (ValueError msg)) \<and>
    cache (snd (generate_suggestions objectless_provider 1000 empty_state example_acte_data
       False)) = cache empty_state) \<and>
   (create_cache_key two_object_provider example_acte_data = Inr ''ccam_suggestion:36'' \<and>
    main_prompt two_object_provider example_acte_data = Inr ''main_suggestion'' \<and>
    llm two_object_provider ''main_suggestion'' = Inr two_objects \<and>
    CHR ''{'' \<in> set two_objects \<and> CHR ''}'' \<in> set two_objects \<and>
    json_loads two_object_provider
      (py_slice two_objects (py_find two_objects CHR ''{'') (py_rfind two_objects CHR ''}'' + 1)) =
      Inl JSONDecodeError \<and>
    fst (generate_suggestions two_object_provider 1000 empty_state example_acte_data False) =
      Inl JSONDecodeError \<and>
    cache (snd (generate_suggestions two_object_provider 1000 empty_state example_acte_data
       False)) = cache empty_state) \<and>
   (create_cache_key example_provider example_acte_data = Inr ''ccam_suggestion:36'' \<and>
    main_prompt example_provider example_acte_data = Inr ''main_suggestion'' \<and>
    llm example_provider ''main_suggestion'' = Inr example_answer \<and>
    fst (generate_suggestions example_provider 1000 empty_state example_acte_data False) =
      Inr example_response \<and>
    CHR ''{'' \<in> set example_answer \<and> CHR ''}'' \<in> set example_answer \<and>
    (\<exists>parsed. json_loads example_provider
       (py_slice example_answer (py_find example_answer CHR ''{'')
          (py_rfind example_answer CHR ''}'' + 1)) = Inr parsed)) \<and>
   (format_prompt chatty_provider ''extraction''
      [(''texte_clinique'', dict_get example_acte_data ''description_clinique'' (PStr []))] =
      Inr ''extraction'' \<and>
    llm chatty_provider ''extraction'' = Inr ''pas de json'' \<and>
    (\<exists>msg. parse_llm_response (json_loads chatty_provider) ''pas de json'' =
       Inl (ValueError msg)) \<and>
    fst (extract_clinical_info chatty_provider empty_state example_acte_data) = PDict [])"
proof -
  have m: "False \<or> cache_get (cache empty_state) 1000 ''ccam_suggestion:36'' = None"
    by (simp add: empty_state_miss)
  have m': "cache_get (cache empty_state) 1000 ''ccam_suggestion:36'' = None"
    by (simp add: empty_state_miss)
  have ak: "create_cache_key objectless_provider example_acte_data = Inr ''ccam_suggestion:36''"
    by (simp add: objectless_provider_def provider_variant_key)
  have ap: "main_prompt objectless_provider example_acte_data = Inr ''main_suggestion''"
    by (simp add: objectless_provider_def provider_variant_prompt)
  have al: "llm objectless_provider ''main_suggestion'' = Inr ''pas de json''"
    by (simp add: objectless_provider_def)
  from unparseable_main_answer_fails_request [OF ak m ap al] no_object_in_refusal
  have a: "(\<exists>msg. fst (generate_suggestions objectless_provider 1000 empty_state
        example_acte_data False) = Inl (ValueError msg)) \<and>
      cache (snd (generate_suggestions objectless_provider 1000 empty_state example_acte_data
        False)) = cache empty_state"
    by blast
  have bk: "create_cache_key two_object_provider example_acte_data = Inr ''ccam_suggestion:36''"
    by (simp add: two_object_provider_def provider_variant_key)
  have bp: "main_prompt two_object_provider example_acte_data = Inr ''main_suggestion''"
    by (simp add: two_object_provider_def provider_variant_prompt)
  have bl: "llm two_object_provider ''main_suggestion'' = Inr two_objects"
    by (simp add: two_object_provider_def)
  have bj: "json_loads two_object_provider
      (py_slice two_objects (py_find two_objects CHR ''{'') (py_rfind two_objects CHR ''}'' + 1)) =
      Inl JSONDecodeError"
    using two_objects_slice two_objects_rejected
    by (simp add: two_object_provider_def example_provider_def example_env_def)
  from unparseable_main_answer_fails_request [OF bk m bp bl] two_objects_slice bj
  have b: "fst (generate_suggestions two_object_provider 1000 empty_state example_acte_data
        False) = Inl JSONDecodeError \<and>
      cache (snd (generate_suggestions two_object_provider 1000 empty_state example_acte_data
        False)) = cache empty_state"
    by blast
  have cr: "fst (generate_suggestions example_provider 1000 empty_state example_acte_data False) =
      Inr example_response"
    by (simp add: example_first_request)
  from unparseable_main_answer_fails_request [OF example_key m example_prompt example_llm] cr
  have c: "CHR ''{'' \<in> set example_answer \<and> CHR ''}'' \<in> set example_answer \<and>
    (\<exists>parsed. json_loads example_provider
       (py_slice example_answer (py_find example_answer CHR ''{'')
          (py_rfind example_answer CHR ''}'' + 1)) = Inr parsed)"
    by blast
  have df: "format_prompt chatty_provider ''extraction''
      [(''texte_clinique'', dict_get example_acte_data ''description_clinique'' (PStr []))] =
      Inr ''extraction''"
    by (simp add: chatty_provider_def example_provider_def example_env_def)
  have dl: "llm chatty_provider ''extraction'' = Inr ''pas de json''"
    by (simp add: chatty_provider_def)
  obtain msg where dj: "parse_llm_response (json_loads chatty_provider) ''pas de json'' =
       Inl (ValueError msg)"
    using refusal_unparseable by blast
  have dk: "create_cache_key chatty_provider example_acte_data = Inr ''ccam_suggestion:36''"
    by (simp add: chatty_provider_def provider_variant_key)
  have dp: "main_prompt chatty_provider example_acte_data = Inr ''main_suggestion''"
    by (simp add: chatty_provider_def provider_variant_prompt)
  have dm: "llm chatty_provider ''main_suggestion'' = Inr example_answer"
    by (simp add: chatty_provider_def)
  from unparseable_main_answer_fails_request [OF dk m dp dm] df dl dj
  have d: "fst (extract_clinical_info chatty_provider empty_state example_acte_data) = PDict []"
    by blast
  have x: "\<exists>msg. parse_llm_response (json_loads chatty_provider) ''pas de json'' =
       Inl (ValueError msg)"
    using refusal_unparseable by blast
  from ak m' ap al no_object_in_refusal a bk bp bl two_objects_slice bj b
    example_key example_prompt example_llm cr c df dl x d
  show ?thesis by (intro conjI) blast+
qed

end
